theory Spec2Isabelle
  imports Complex_Main "HOL-Library.Log_Nat" "HOL-Library.Sublist"
begin

section \<open>Python floats\<close>

text \<open>
  \<open>main.py\<close> keeps the bird's velocity and the two volumes in Python floats (IEEE 754
  binary64). A float is modelled by the rational number it denotes, and every float
  operation by the exact operation followed by \<open>fl\<close>, rounding to the nearest number with
  a 53-bit significand, ties to the even significand. The model is exact for results of
  magnitude between \<open>2^-1022\<close> and \<open>2^1024\<close>; the program's velocities and volumes are
  sums of a few hundred multiples of 0.2425 and 0.05 and never leave that range.
\<close>

definition pow2 :: "int \<Rightarrow> rat" where
  "pow2 e = (if 0 \<le> e then 2 ^ nat e else 1 / 2 ^ nat (- e))"

definition round_half_even :: "rat \<Rightarrow> int" where
  "round_half_even x =
     (let f = \<lfloor>x\<rfloor>; d = x - of_int f
      in if d < 1 / 2 then f else if 1 / 2 < d then f + 1 else if even f then f else f + 1)"

text \<open>The binary exponent \<open>e\<close> of a non-zero number: \<open>2^e \<le> |x| < 2^(e+1)\<close>.\<close>

definition float_exponent :: "rat \<Rightarrow> int" where
  "float_exponent x =
     (let a = \<bar>x\<bar>
      in if 1 \<le> a then bitlen \<lfloor>a\<rfloor> - 1
         else (let k = bitlen \<lfloor>1 / a\<rfloor> - 1
               in if a = pow2 (- k) then - k else - k - 1))"

definition fl :: "rat \<Rightarrow> rat" where
  "fl x = (if x = 0 then 0
           else (let u = pow2 (float_exponent x - 52)
                 in of_int (round_half_even (x / u)) * u))"

text \<open>Float addition and subtraction; \<open>int(x)\<close> on a float truncates toward zero.\<close>

definition fadd :: "rat \<Rightarrow> rat \<Rightarrow> rat" where
  "fadd a b = fl (a + b)"

definition fsub :: "rat \<Rightarrow> rat \<Rightarrow> rat" where
  "fsub a b = fl (a - b)"

definition py_int_of_float :: "rat \<Rightarrow> int" where
  "py_int_of_float x = (if 0 \<le> x then \<lfloor>x\<rfloor> else \<lceil>x\<rceil>)"

section \<open>pygame.Rect\<close>

text \<open>
  A \<open>pygame.Rect\<close> holds four integers \<open>x, y, w, h\<close>; the other attributes are computed.
  pygame halves a width or height with C's integer division, which truncates toward zero.
\<close>

record rect =
  rect_x :: int
  rect_y :: int
  rect_w :: int
  rect_h :: int

definition cdiv2 :: "int \<Rightarrow> int" where
  "cdiv2 n = (if 0 \<le> n then n div 2 else - ((- n) div 2))"

definition rect_left :: "rect \<Rightarrow> int" where
  "rect_left r = rect_x r"

definition rect_top :: "rect \<Rightarrow> int" where
  "rect_top r = rect_y r"

definition rect_right :: "rect \<Rightarrow> int" where
  "rect_right r = rect_x r + rect_w r"

definition rect_bottom :: "rect \<Rightarrow> int" where
  "rect_bottom r = rect_y r + rect_h r"

definition rect_centerx :: "rect \<Rightarrow> int" where
  "rect_centerx r = rect_x r + cdiv2 (rect_w r)"

definition rect_centery :: "rect \<Rightarrow> int" where
  "rect_centery r = rect_y r + cdiv2 (rect_h r)"

text \<open>Assigning to \<open>r.centery\<close> moves the rectangle: \<open>r.y = value - h / 2\<close>.\<close>

definition set_centery :: "int \<Rightarrow> rect \<Rightarrow> rect" where
  "set_centery v r = r\<lparr>rect_y := v - cdiv2 (rect_h r)\<rparr>"

text \<open>
  \<open>Surface.get_rect(**kwargs)\<close> builds \<open>Rect(0, 0, w, h)\<close> from the surface's size and then
  assigns the keyword attribute. The three keywords \<open>main.py\<close> uses:
\<close>

definition get_rect_center :: "nat \<times> nat \<Rightarrow> int \<times> int \<Rightarrow> rect" where
  "get_rect_center sz c =
     \<lparr>rect_x = fst c - cdiv2 (int (fst sz)), rect_y = snd c - cdiv2 (int (snd sz)),
      rect_w = int (fst sz), rect_h = int (snd sz)\<rparr>"

definition get_rect_midtop :: "nat \<times> nat \<Rightarrow> int \<times> int \<Rightarrow> rect" where
  "get_rect_midtop sz c =
     \<lparr>rect_x = fst c - cdiv2 (int (fst sz)), rect_y = snd c,
      rect_w = int (fst sz), rect_h = int (snd sz)\<rparr>"

definition get_rect_midbottom :: "nat \<times> nat \<Rightarrow> int \<times> int \<Rightarrow> rect" where
  "get_rect_midbottom sz c =
     \<lparr>rect_x = fst c - cdiv2 (int (fst sz)), rect_y = snd c - int (snd sz),
      rect_w = int (fst sz), rect_h = int (snd sz)\<rparr>"

text \<open>\<open>Rect.move(dx, dy)\<close> returns a new rectangle.\<close>

definition move :: "int \<Rightarrow> int \<Rightarrow> rect \<Rightarrow> rect" where
  "move dx dy r = r\<lparr>rect_x := rect_x r + dx, rect_y := rect_y r + dy\<rparr>"

text \<open>
  \<open>Rect.colliderect\<close>, as pygame 2 implements and documents it: a rectangle of zero width
  or height collides with nothing, and otherwise the test is a strict overlap, ``except
  the top+bottom or left+right edges''. Sizes may be negative in pygame, hence the
  \<open>min\<close> and \<open>max\<close>.
\<close>

definition colliderect :: "rect \<Rightarrow> rect \<Rightarrow> bool" where
  "colliderect a b =
     (if rect_w a = 0 \<or> rect_h a = 0 \<or> rect_w b = 0 \<or> rect_h b = 0 then False
      else min (rect_x a) (rect_x a + rect_w a) < max (rect_x b) (rect_x b + rect_w b)
         \<and> min (rect_y a) (rect_y a + rect_h a) < max (rect_y b) (rect_y b + rect_h b)
         \<and> max (rect_x a) (rect_x a + rect_w a) > min (rect_x b) (rect_x b + rect_w b)
         \<and> max (rect_y a) (rect_y a + rect_h a) > min (rect_y b) (rect_y b + rect_h b))"

section \<open>Constants and assets\<close>

definition SCREEN_WIDTH :: int where "SCREEN_WIDTH = 288"
definition SCREEN_HEIGHT :: int where "SCREEN_HEIGHT = 512"
definition GRAVITY :: rat where "GRAVITY = fl (2425 / 10000)"
definition FLAP_STRENGTH :: int where "FLAP_STRENGTH = - 6"
definition PIPE_GAP :: int where "PIPE_GAP = 100"

text \<open>
  The sprites are downloaded when the program starts, so their sizes are not in the
  source: they are a parameter of the model. \<open>pipe_flipped\<close> is \<open>pipe_img\<close> flipped and
  has its size. \<open>stock_assets\<close> are the sizes of the files the URLs name.
\<close>

record assets =
  bird_img :: "nat \<times> nat"
  pipe_img :: "nat \<times> nat"
  base_img_height :: nat

definition stock_assets :: assets where
  "stock_assets = \<lparr>bird_img = (34, 24), pipe_img = (52, 320), base_img_height = 112\<rparr>"

section \<open>Pipes\<close>

text \<open>
  \<open>create_pipe\<close>; the argument \<open>height\<close> is the number \<open>random.randint(150, 300)\<close> returned.
\<close>

definition create_pipe :: "assets \<Rightarrow> int \<Rightarrow> rect \<times> rect" where
  "create_pipe A height =
     (let bottom_rect = get_rect_midtop (pipe_img A) (SCREEN_WIDTH + 50, height);
          top_rect = get_rect_midbottom (pipe_img A) (SCREEN_WIDTH + 50, height - PIPE_GAP)
      in (top_rect, bottom_rect))"

text \<open>\<open>move_pipes\<close>: the list comprehension tests each pair before it moves it.\<close>

fun move_pipes :: "(rect \<times> rect) list \<Rightarrow> (rect \<times> rect) list" where
  "move_pipes [] = []"
| "move_pipes ((top_rect, bottom_rect) # pipes_list) =
     (if rect_right top_rect > - 50
      then (move (- 3) 0 top_rect, move (- 3) 0 bottom_rect) # move_pipes pipes_list
      else move_pipes pipes_list)"

text \<open>
  \<open>check_collision\<close>, for the bird rectangle and the height of the ground sprite it reads
  from globals. Only the returned boolean is modelled; the function also plays the hit
  sound exactly when it returns \<open>True\<close>.
\<close>

fun check_collision :: "rect \<Rightarrow> int \<Rightarrow> (rect \<times> rect) list \<Rightarrow> bool" where
  "check_collision bird base_h [] =
     (if rect_top bird \<le> - 50 \<or> rect_bottom bird \<ge> SCREEN_HEIGHT - base_h then True else False)"
| "check_collision bird base_h ((top_rect, bottom_rect) # pipes_list) =
     (if colliderect bird top_rect \<or> colliderect bird bottom_rect then True
      else check_collision bird base_h pipes_list)"

section \<open>The high-score file\<close>

datatype py_error = ValueError | OSError | NameError | PygameError

text \<open>
  A Python \<open>str\<close> is a sequence of Unicode code points; the text of the file is modelled
  as the list of their numbers. \<open>str(n)\<close> writes a minus sign for a negative number and
  then the decimal digits.
\<close>

type_synonym py_text = "nat list"

definition codepoints :: "string \<Rightarrow> py_text" where
  "codepoints s = map of_char s"

definition digit_char :: "nat \<Rightarrow> nat" where
  "digit_char d = 48 + d"

fun str_nat :: "nat \<Rightarrow> py_text" where
  "str_nat n = (if n < 10 then [digit_char n] else str_nat (n div 10) @ [digit_char (n mod 10)])"

declare str_nat.simps [simp del]

definition py_str :: "int \<Rightarrow> py_text" where
  "py_str n = (if n < 0 then 45 # str_nat (nat (- n)) else str_nat (nat n))"

text \<open>
  \<open>int(s)\<close> on a \<open>str\<close>, as CPython 3.11 computes it. First every code point from 127 on
  is replaced: a Unicode white space by a blank, a Unicode decimal digit by its ASCII
  digit, and at the first other one the text is cut and ends in a question mark. The white
  space from 127 on is listed in \<open>unicode_space\<close>. The decimal digits (Unicode 14.0) come in
  66 runs of ten, zero to nine; \<open>decimal_zeros\<close> lists the zeros.
\<close>

definition unicode_space :: "nat \<Rightarrow> bool" where
  "unicode_space c =
     (c = 133 \<or> c = 160 \<or> c = 5760 \<or> (8192 \<le> c \<and> c \<le> 8202) \<or> c = 8232 \<or> c = 8233
      \<or> c = 8239 \<or> c = 8287 \<or> c = 12288)"

definition decimal_zeros :: "nat list" where
  "decimal_zeros =
     [48, 1632, 1776, 1984, 2406, 2534, 2662, 2790, 2918, 3046, 3174, 3302, 3430, 3558, 3664,
      3792, 3872, 4160, 4240, 6112, 6160, 6470, 6608, 6784, 6800, 6992, 7088, 7232, 7248,
      42528, 43216, 43264, 43472, 43504, 43600, 44016, 65296, 66720, 68912, 69734, 69872,
      69942, 70096, 70384, 70736, 70864, 71248, 71360, 71472, 71904, 72016, 72784, 73040,
      73120, 92768, 92864, 93008, 120782, 120792, 120802, 120812, 120822, 123200, 123632,
      125264, 130032]"

definition unicode_decimal :: "nat \<Rightarrow> nat option" where
  "unicode_decimal c = map_option (\<lambda>z. c - z) (find (\<lambda>z. z \<le> c \<and> c < z + 10) decimal_zeros)"

fun to_ascii :: "py_text \<Rightarrow> py_text" where
  "to_ascii [] = []"
| "to_ascii (c # cs) =
     (if c < 127 then c # to_ascii cs
      else if unicode_space c then 32 # to_ascii cs
      else (case unicode_decimal c of Some d \<Rightarrow> (48 + d) # to_ascii cs | None \<Rightarrow> [63]))"

text \<open>
  Then the ASCII text is read: white space (tab to carriage return, and the blank) is
  skipped at both ends, one sign is accepted, then decimal digits, with single underscores
  allowed between digits. Anything else raises \<open>ValueError\<close>, and so does a text of more
  than 4300 digits (\<open>sys.int_info.default_max_str_digits\<close>).
\<close>

definition is_digit :: "nat \<Rightarrow> bool" where
  "is_digit c = (48 \<le> c \<and> c \<le> 57)"

definition digit_val :: "nat \<Rightarrow> nat" where
  "digit_val c = c - 48"

definition is_space :: "nat \<Rightarrow> bool" where
  "is_space c = ((9 \<le> c \<and> c \<le> 13) \<or> c = 32)"

definition strip :: "py_text \<Rightarrow> py_text" where
  "strip s = rev (dropWhile is_space (rev (dropWhile is_space s)))"

fun parse_digits :: "nat \<Rightarrow> py_text \<Rightarrow> nat option" where
  "parse_digits acc [] = Some acc"
| "parse_digits acc [c] = (if is_digit c then Some (10 * acc + digit_val c) else None)"
| "parse_digits acc (c # d # cs) =
     (if is_digit c then parse_digits (10 * acc + digit_val c) (d # cs)
      else if c = 95 \<and> is_digit d then parse_digits (10 * acc + digit_val d) cs
      else None)"

definition parse_unsigned :: "py_text \<Rightarrow> nat option" where
  "parse_unsigned s =
     (case s of [] \<Rightarrow> None
      | c # cs \<Rightarrow> if is_digit c then parse_digits (digit_val c) cs else None)"

definition max_str_digits :: nat where
  "max_str_digits = 4300"

definition py_int :: "py_text \<Rightarrow> py_error + int" where
  "py_int s =
     (let t = strip (to_ascii s)
      in if max_str_digits < length (filter is_digit t) then Inl ValueError
         else (case t of [] \<Rightarrow> Inl ValueError
               | c # cs \<Rightarrow>
                   (case (if c = 45 then map_option (\<lambda>n. - int n) (parse_unsigned cs)
                          else if c = 43 then map_option int (parse_unsigned cs)
                          else map_option int (parse_unsigned (c # cs)))
                    of None \<Rightarrow> Inl ValueError | Some n \<Rightarrow> Inr n)))"

text \<open>
  What \<open>highscore.txt\<close> can be when the program looks at it: absent; there, with the text
  that \<open>f.read()\<close> returns; there, with bytes that do not decode (\<open>f.read()\<close> raises
  \<open>UnicodeDecodeError\<close>, a \<open>ValueError\<close>); or there but not openable (a directory, or no
  permission).
\<close>

datatype hs_file = Missing | Content py_text | Undecodable | Unreadable

text \<open>
  \<open>load_highscore\<close>: \<open>open\<close> stands outside the \<open>try\<close>, so its \<open>OSError\<close> is not caught;
  \<open>int(f.read())\<close> stands inside, and its \<open>ValueError\<close> is.
\<close>

definition load_highscore :: "hs_file \<Rightarrow> py_error + int" where
  "load_highscore f =
     (case f of
        Missing \<Rightarrow> Inr 0
      | Unreadable \<Rightarrow> Inl OSError
      | Undecodable \<Rightarrow> Inr 0
      | Content s \<Rightarrow> (case py_int s of Inl e \<Rightarrow> (if e = ValueError then Inr 0 else Inl e)
                                     | Inr n \<Rightarrow> Inr n))"

text \<open>
  \<open>save_highscore\<close> overwrites the file with \<open>str(score)\<close>. (\<open>str\<close> has the same limit of
  4300 digits; a score grows by the number of pairs on the bird's line in a tick, and a
  score of that length is left out here.)
\<close>

definition save_highscore :: "int \<Rightarrow> hs_file" where
  "save_highscore sc = Content (py_str sc)"

section \<open>Game state\<close>

text \<open>
  The module-level variables of \<open>main.py\<close> that the main loop reads and writes, with the
  file \<open>highscore.txt\<close>. Drawing and sound playback are output only and are left out.
\<close>

record game =
  bird :: rect
  bird_movement :: rat
  pipes :: "(rect \<times> rect) list"
  base_x :: int
  score :: int
  game_active :: bool
  high_score :: int
  music_volume :: rat
  sfx_volume :: rat
  show_volume_ui :: bool
  running :: bool
  highscore_file :: hs_file

datatype key = K_SPACE | K_r | K_v | K_m | K_n | K_k | K_l | K_OTHER

text \<open>
  The events \<open>pygame.event.get()\<close> delivers. \<open>SPAWNPIPE h\<close> is the timer event; \<open>h\<close> is the
  number \<open>random.randint(150, 300)\<close> returns if \<open>create_pipe\<close> is called for this event.
\<close>

datatype event = QUIT | KEYDOWN key | SPAWNPIPE int | OTHER_EVENT

definition reset_game :: "assets \<Rightarrow> game \<Rightarrow> game" where
  "reset_game A s =
     s\<lparr>bird := get_rect_center (bird_img A) (50, SCREEN_HEIGHT div 2),
       bird_movement := 0,
       pipes := [],
       base_x := 0,
       score := 0,
       game_active := True\<rparr>"

text \<open>The body of the event loop, in its three parts (lines 231-232, 234-242, 245-267).\<close>

definition event_quit :: "event \<Rightarrow> game \<Rightarrow> game" where
  "event_quit e s = (if e = QUIT then s\<lparr>running := False\<rparr> else s)"

definition event_route :: "assets \<Rightarrow> event \<Rightarrow> game \<Rightarrow> game" where
  "event_route A e s =
     (if game_active s \<and> \<not> show_volume_ui s then
        (case e of
           KEYDOWN k \<Rightarrow> (if k = K_SPACE then s\<lparr>bird_movement := of_int FLAP_STRENGTH\<rparr> else s)
         | SPAWNPIPE h \<Rightarrow> s\<lparr>pipes := pipes s @ [create_pipe A h]\<rparr>
         | _ \<Rightarrow> s)
      else if \<not> game_active s \<and> \<not> show_volume_ui s then
        (case e of
           KEYDOWN k \<Rightarrow> (if k = K_r then reset_game A s else s)
         | _ \<Rightarrow> s)
      else s)"

definition volume_change :: rat where
  "volume_change = fl (5 / 100)"

definition adjust_volume :: "key \<Rightarrow> game \<Rightarrow> game" where
  "adjust_volume pressed_key s =
     (if pressed_key = K_m then s\<lparr>music_volume := min 1 (fadd (music_volume s) volume_change)\<rparr>
      else if pressed_key = K_n then s\<lparr>music_volume := max 0 (fsub (music_volume s) volume_change)\<rparr>
      else if pressed_key = K_k then s\<lparr>sfx_volume := min 1 (fadd (sfx_volume s) volume_change)\<rparr>
      else if pressed_key = K_l then s\<lparr>sfx_volume := max 0 (fsub (sfx_volume s) volume_change)\<rparr>
      else s)"

definition event_volume :: "event \<Rightarrow> game \<Rightarrow> game" where
  "event_volume e s =
     (case e of
        KEYDOWN k \<Rightarrow>
          (let s1 = (if k = K_v then s\<lparr>show_volume_ui := \<not> show_volume_ui s\<rparr> else s)
           in if show_volume_ui s1 then adjust_volume k s1 else s1)
      | _ \<Rightarrow> s)"

definition handle_event :: "assets \<Rightarrow> event \<Rightarrow> game \<Rightarrow> game" where
  "handle_event A e s = event_volume e (event_route A e (event_quit e s))"

fun handle_events :: "assets \<Rightarrow> event list \<Rightarrow> game \<Rightarrow> game" where
  "handle_events A [] s = s"
| "handle_events A (e # es) s = handle_events A es (handle_event A e s)"

text \<open>Lines 270-271: gravity, then the bird moves by the truncated velocity.\<close>

definition integrate :: "rect \<times> rat \<Rightarrow> rect \<times> rat" where
  "integrate bv =
     (let v = fadd (snd bv) GRAVITY
      in (set_centery (rect_centery (fst bv) + py_int_of_float v) (fst bv), v))"

text \<open>Lines 289-293: the scoring loop.\<close>

fun score_pipes :: "rect \<Rightarrow> (rect \<times> rect) list \<Rightarrow> int \<Rightarrow> int" where
  "score_pipes b [] sc = sc"
| "score_pipes b (pipe # rest) sc =
     score_pipes b rest (if rect_centerx (fst pipe) = rect_centerx b then sc + 1 else sc)"

text \<open>
  Lines 269-293, the part of a frame after the event loop, statement by statement:
  the bird (270-271), the pipes (274), the ground (277-279), the collision (282-287)
  and the score (289-293).
\<close>

definition move_bird :: "game \<Rightarrow> game" where
  "move_bird s =
     (case integrate (bird s, bird_movement s) of (b, v) \<Rightarrow> s\<lparr>bird := b, bird_movement := v\<rparr>)"

definition advance_pipes :: "game \<Rightarrow> game" where
  "advance_pipes s = s\<lparr>pipes := move_pipes (pipes s)\<rparr>"

definition scroll_base :: "game \<Rightarrow> game" where
  "scroll_base s = s\<lparr>base_x := (if base_x s - 1 \<le> - SCREEN_WIDTH then 0 else base_x s - 1)\<rparr>"

definition on_collision :: "game \<Rightarrow> game" where
  "on_collision s =
     (if score s > high_score s
      then s\<lparr>game_active := False, high_score := score s, highscore_file := save_highscore (score s)\<rparr>
      else s\<lparr>game_active := False\<rparr>)"

definition detect_collision :: "assets \<Rightarrow> game \<Rightarrow> game" where
  "detect_collision A s =
     (if check_collision (bird s) (int (base_img_height A)) (pipes s) then on_collision s else s)"

definition count_score :: "game \<Rightarrow> game" where
  "count_score s = s\<lparr>score := score_pipes (bird s) (pipes s) (score s)\<rparr>"

definition tick :: "assets \<Rightarrow> game \<Rightarrow> game" where
  "tick A s =
     (if game_active s \<and> \<not> show_volume_ui s
      then count_score (detect_collision A (scroll_base (advance_pipes (move_bird s))))
      else s)"

definition frame :: "assets \<Rightarrow> event list \<Rightarrow> game \<Rightarrow> game" where
  "frame A evs s = tick A (handle_events A evs s)"

text \<open>
  The main loop: one list of events per frame; the loop condition \<open>running\<close> is tested
  before each frame.
\<close>

fun run :: "assets \<Rightarrow> event list list \<Rightarrow> game \<Rightarrow> game" where
  "run A [] s = s"
| "run A (evs # rest) s = (if running s then run A rest (frame A evs s) else s)"

section \<open>Start-up\<close>

text \<open>
  Lines 187-195. The argument \<open>music_ok\<close> says whether \<open>bg.ogg\<close> loads and plays;
  \<open>mv\<close> is the variable \<open>music_volume\<close>, \<open>None\<close> while no value is bound to it. At line 189
  only the annotation of line 67 has been executed, which binds nothing.
\<close>

definition start_music :: "bool \<Rightarrow> rat option \<Rightarrow> py_error + unit" where
  "start_music music_ok mv =
     (if \<not> music_ok then Inl PygameError
      else (case mv of None \<Rightarrow> Inl NameError | Some v \<Rightarrow> Inr ()))"

record boot =
  music_playing :: bool
  printed :: "string list"
  initial :: game

text \<open>
  The module-level statements before the main loop. \<open>except Exception\<close> catches both
  errors of \<open>start_music\<close>, prints the line and assigns 0.0 (\<open>mv195\<close>); line 207 then
  assigns 0.4 whatever happened before. \<open>load_highscore\<close> is called outside any \<open>try\<close>.
  The sprites and sounds are taken as loaded: \<open>A\<close> holds their sizes.
\<close>

definition startup :: "assets \<Rightarrow> bool \<Rightarrow> hs_file \<Rightarrow> py_error + boot" where
  "startup A music_ok f =
     (let tried = start_music music_ok None;
          playing = (case tried of Inl e \<Rightarrow> False | Inr u \<Rightarrow> True);
          out = (case tried of
                   Inl e \<Rightarrow> [''Info: Background music not loaded (optional) - game will continue without music'']
                 | Inr u \<Rightarrow> []);
          mv195 = (case tried of Inl e \<Rightarrow> Some (0 :: rat) | Inr u \<Rightarrow> None);
          mv207 = fl (4 / 10)
      in case load_highscore f of
           Inl e \<Rightarrow> Inl e
         | Inr hs \<Rightarrow>
             Inr \<lparr>music_playing = playing, printed = out,
                  initial =
                    \<lparr>bird = get_rect_center (bird_img A) (50, SCREEN_HEIGHT div 2),
                     bird_movement = 0,
                     pipes = [],
                     base_x = 0,
                     score = 0,
                     game_active = True,
                     high_score = hs,
                     music_volume = mv207,
                     sfx_volume = fl (5 / 10),
                     show_volume_ui = False,
                     running = True,
                     highscore_file = f\<rparr>\<rparr>)"

section \<open>Terms of the specification\<close>

text \<open>
  The specification speaks of a pair's gap, of a pair advancing, of rectangles that
  intersect and of clamped volumes. These notions are stated here over the program's data;
  none of them is a function of \<open>main.py\<close>.
\<close>

definition gap_height :: "rect \<times> rect \<Rightarrow> int" where
  "gap_height p = rect_top (snd p) - rect_bottom (fst p)"

definition gap_center_y :: "rect \<times> rect \<Rightarrow> int" where
  "gap_center_y p = (rect_bottom (fst p) + rect_top (snd p)) div 2"

text \<open>What \<open>move_pipes\<close> does to one pair that it keeps.\<close>

definition move_pair :: "rect \<times> rect \<Rightarrow> rect \<times> rect" where
  "move_pair p = (move (- 3) 0 (fst p), move (- 3) 0 (snd p))"

text \<open>Overlap of the interiors, and overlap where a shared edge counts.\<close>

definition interiors_overlap :: "rect \<Rightarrow> rect \<Rightarrow> bool" where
  "interiors_overlap a b =
     (rect_left a < rect_right b \<and> rect_left b < rect_right a
      \<and> rect_top a < rect_bottom b \<and> rect_top b < rect_bottom a)"

definition closed_overlap :: "rect \<Rightarrow> rect \<Rightarrow> bool" where
  "closed_overlap a b =
     (rect_left a \<le> rect_right b \<and> rect_left b \<le> rect_right a
      \<and> rect_top a \<le> rect_bottom b \<and> rect_top b \<le> rect_bottom a)"

definition positive_size :: "rect \<Rightarrow> bool" where
  "positive_size r = (0 < rect_w r \<and> 0 < rect_h r)"

text \<open>The collision check as the specification words it, with closed overlap.\<close>

definition spec_check :: "rect \<Rightarrow> int \<Rightarrow> (rect \<times> rect) list \<Rightarrow> bool" where
  "spec_check b base_h ps =
     (list_ex (\<lambda>p. closed_overlap b (fst p) \<or> closed_overlap b (snd p)) ps
      \<or> rect_top b \<le> - 50 \<or> rect_bottom b \<ge> SCREEN_HEIGHT - base_h)"

definition volumes_ok :: "game \<Rightarrow> bool" where
  "volumes_ok s =
     (0 \<le> music_volume s \<and> music_volume s \<le> 1 \<and> 0 \<le> sfx_volume s \<and> sfx_volume s \<le> 1)"

definition clamp :: "rat \<Rightarrow> rat \<Rightarrow> rat \<Rightarrow> rat" where
  "clamp x lo hi = max lo (min hi x)"

text \<open>
  What \<open>int\<close> takes for white space and for a decimal digit, over all of Unicode; the
  characters an integer can be written with; and the value of a string of decimal digits,
  read from the left. \<open>ascii_of\<close> is the ASCII character that stands for one of them, and
  \<open>digits_value\<close> is the value of a string of ASCII digits.
\<close>

definition int_space :: "nat \<Rightarrow> bool" where
  "int_space c = (is_space c \<or> unicode_space c)"

definition int_digit :: "nat \<Rightarrow> bool" where
  "int_digit c = (unicode_decimal c \<noteq> None)"

definition int_char :: "nat \<Rightarrow> bool" where
  "int_char c = (int_space c \<or> int_digit c \<or> c = 43 \<or> c = 45 \<or> c = 95)"

definition decimal_value :: "py_text \<Rightarrow> nat" where
  "decimal_value ds = foldl (\<lambda>a c. 10 * a + the (unicode_decimal c)) 0 ds"

definition ascii_of :: "nat \<Rightarrow> nat" where
  "ascii_of c = (if c < 127 then c else if unicode_space c then 32 else 48 + the (unicode_decimal c))"

definition digits_value :: "nat \<Rightarrow> py_text \<Rightarrow> nat" where
  "digits_value acc ds = foldl (\<lambda>a c. 10 * a + digit_val c) acc ds"

text \<open>
  The state in which the main loop starts when the sprites are the stock ones, \<open>bg.ogg\<close>
  does not load and there is no \<open>highscore.txt\<close>.
\<close>

definition stock_game :: game where
  "stock_game =
     \<lparr>bird = \<lparr>rect_x = 33, rect_y = 244, rect_w = 34, rect_h = 24\<rparr>,
      bird_movement = 0, pipes = [], base_x = 0, score = 0, game_active = True,
      high_score = 0, music_volume = fl (4 / 10), sfx_volume = fl (5 / 10),
      show_volume_ui = False, running = True, highscore_file = Missing\<rparr>"

text \<open>
  Falling without a flap: the velocity after \<open>n\<close> passes through lines 270-271, and the
  number of pixels the bird has moved by then.
\<close>

fun velocity_after :: "nat \<Rightarrow> rat \<Rightarrow> rat" where
  "velocity_after 0 v = v"
| "velocity_after (Suc n) v = velocity_after n (fadd v GRAVITY)"

fun drift_after :: "nat \<Rightarrow> rat \<Rightarrow> int" where
  "drift_after 0 v = 0"
| "drift_after (Suc n) v = py_int_of_float (fadd v GRAVITY) + drift_after n (fadd v GRAVITY)"

text \<open>
  The test of line 291 for one pair, and the specification's \<open>passed\<close>: the pair's centre
  line has reached the bird's.
\<close>

definition scores_now :: "rect \<Rightarrow> rect \<times> rect \<Rightarrow> bool" where
  "scores_now b p = (rect_centerx (fst p) = rect_centerx b)"

definition passed :: "rect \<Rightarrow> rect \<times> rect \<Rightarrow> bool" where
  "passed b p = (rect_centerx (fst p) \<le> rect_centerx b)"

text \<open>
  The inputs of a run of 95 frames: in the first frame the timer fires (the number drawn
  is 260) and the player flaps; the player flaps again in frame 49; nothing else happens.
\<close>

definition demo_frames :: "event list list" where
  "demo_frames =
     [[SPAWNPIPE 260, KEYDOWN K_SPACE]] @ replicate 47 [] @ [[KEYDOWN K_SPACE]] @ replicate 46 []"

text \<open>
  Two properties of the states of a run. The bird's centre line is at 50, and every pair's
  centre line is at 338 minus a multiple of 3 and not right of its right edge. With the
  stock sprites, every pair's right edge is at 364 minus a multiple of 3 and not left
  of -50.
\<close>

definition on_grid :: "game \<Rightarrow> bool" where
  "on_grid s =
     (rect_centerx (bird s) = 50
      \<and> (\<forall>p \<in> set (pipes s). rect_centerx (fst p) mod 3 = 2
                              \<and> rect_centerx (fst p) \<le> rect_right (fst p)))"


section \<open>Evaluating floats\<close>

lemma floor_numeral_div [simp]:
  "\<lfloor>numeral a / numeral b :: rat\<rfloor> = numeral a div numeral b"
  using floor_divide_of_int_eq [of "numeral a" "numeral b", where ?'a = rat] by simp

lemma floor_neg_numeral_div [simp]:
  "\<lfloor>- (numeral a / numeral b) :: rat\<rfloor> = (- numeral a) div numeral b"
  using floor_divide_of_int_eq [of "- numeral a" "numeral b", where ?'a = rat] by simp

lemmas fl_eval =
  fl_def float_exponent_def round_half_even_def pow2_def Let_def compute_bitlen
  fadd_def fsub_def py_int_of_float_def ceiling_def

lemma gravity_value: "GRAVITY = 4368491638549381 / 18014398509481984"
  by (simp add: GRAVITY_def fl_eval)

lemma volume_change_value: "volume_change = 3602879701896397 / 72057594037927936"
  by (simp add: volume_change_def fl_eval)

section \<open>Rectangles and pipes\<close>

lemma cdiv2_nat: "cdiv2 (int n) = int n div 2"
  by (simp add: cdiv2_def)

lemma move_pipes_map_filter:
  "move_pipes ps = map move_pair (filter (\<lambda>p. rect_right (fst p) > - 50) ps)"
  by (induction ps rule: move_pipes.induct) (simp_all add: move_pair_def)

lemma rect_right_move: "rect_right (move dx dy r) = rect_right r + dx"
  by (simp add: rect_right_def move_def)

section \<open>Reading integers\<close>

lemma unicode_decimal_lt10: "unicode_decimal c = Some d \<Longrightarrow> d < 10"
  by (auto simp: unicode_decimal_def find_Some_iff)

lemma decimal_zeros_split:
  "\<exists>rest. decimal_zeros = 48 # rest \<and> (\<forall>z \<in> set rest. 1632 \<le> z)"
  by (simp add: decimal_zeros_def)

lemma unicode_decimal_ascii:
  assumes "c < 127"
  shows "unicode_decimal c = (if is_digit c then Some (c - 48) else None)"
proof -
  obtain rest where r: "decimal_zeros = 48 # rest" "\<forall>z \<in> set rest. 1632 \<le> z"
    using decimal_zeros_split by blast
  have "find (\<lambda>z. z \<le> c \<and> c < z + 10) rest = None"
    using r(2) assms by (auto simp: find_None_iff)
  then show ?thesis
    using assms by (auto simp: unicode_decimal_def r(1) is_digit_def)
qed

lemma unicode_space_ge: "unicode_space c \<Longrightarrow> 133 \<le> c"
  by (auto simp: unicode_space_def)

lemma decimal_zeros_gaps:
  "\<forall>z \<in> set decimal_zeros. z + 10 \<le> 133 \<or> 160 < z"
  "\<forall>z \<in> set decimal_zeros. z + 10 \<le> 5760 \<or> 5760 < z"
  "\<forall>z \<in> set decimal_zeros. z + 10 \<le> 8192 \<or> 12288 < z"
  by (simp_all add: decimal_zeros_def)

lemma unicode_space_not_decimal:
  assumes "unicode_space c"
  shows "unicode_decimal c = None"
proof -
  have "c = 133 \<or> c = 160 \<or> c = 5760 \<or> (8192 \<le> c \<and> c \<le> 12288)"
    using assms by (auto simp: unicode_space_def)
  then have "\<forall>z \<in> set decimal_zeros. \<not> (z \<le> c \<and> c < z + 10)"
    using decimal_zeros_gaps by fastforce
  then show ?thesis
    by (simp add: unicode_decimal_def find_None_iff)
qed


lemma is_digit_digit_char: "d < 10 \<Longrightarrow> is_digit (digit_char d)"
  by (simp add: is_digit_def digit_char_def)

lemma digit_val_digit_char: "digit_val (digit_char d) = d"
  by (simp add: digit_val_def digit_char_def)

lemma not_space_digit: "is_digit c \<Longrightarrow> \<not> is_space c"
  by (auto simp: is_digit_def is_space_def)

lemma is_digit_lt: "is_digit c \<Longrightarrow> c < 127"
  by (simp add: is_digit_def)

lemma str_nat_digits: "\<forall>c \<in> set (str_nat n). is_digit c"
proof (induction n rule: str_nat.induct)
  case (1 n)
  show ?case
  proof (cases "n < 10")
    case True
    then show ?thesis by (subst str_nat.simps) (simp add: is_digit_digit_char)
  next
    case False
    with 1 show ?thesis by (subst str_nat.simps) (simp add: is_digit_digit_char)
  qed
qed

lemma str_nat_nonempty: "str_nat n \<noteq> []"
  by (subst str_nat.simps) simp

lemma str_nat_length: "n < 10 ^ k \<Longrightarrow> 0 < k \<Longrightarrow> length (str_nat n) \<le> k"
proof (induction n arbitrary: k rule: str_nat.induct)
  case (1 n)
  show ?case
  proof (cases "n < 10")
    case True
    then show ?thesis using 1(3) by (subst str_nat.simps) simp
  next
    case False
    obtain j where j: "k = Suc j" using 1(3) by (cases k) auto
    have "0 < j" using False 1(2) j by (cases j) auto
    moreover have "n div 10 < 10 ^ j" using 1(2) j by (simp add: less_mult_imp_div_less)
    ultimately have "length (str_nat (n div 10)) \<le> j" using 1(1) False by simp
    then show ?thesis using False j by (subst str_nat.simps) simp
  qed
qed

lemma parse_digits_all_digits:
  "\<forall>c \<in> set ds. is_digit c \<Longrightarrow> parse_digits acc ds = Some (digits_value acc ds)"
  by (induction acc ds rule: parse_digits.induct) (simp_all add: digits_value_def)

lemma parse_unsigned_all_digits:
  assumes "ds \<noteq> []" "\<forall>c \<in> set ds. is_digit c"
  shows "parse_unsigned ds = Some (digits_value 0 ds)"
proof -
  obtain c cs where cs: "ds = c # cs" using assms(1) by (cases ds) auto
  have "digits_value (digit_val c) cs = digits_value 0 (c # cs)"
    by (simp add: digits_value_def)
  then show ?thesis
    using assms(2) cs by (simp add: parse_unsigned_def parse_digits_all_digits)
qed

lemma digits_value_str_nat: "digits_value 0 (str_nat n) = n"
proof (induction n rule: str_nat.induct)
  case (1 n)
  show ?case
  proof (cases "n < 10")
    case True
    then show ?thesis
      by (subst str_nat.simps) (simp add: digits_value_def digit_val_digit_char)
  next
    case False
    with 1 have "digits_value 0 (str_nat (n div 10)) = n div 10" by simp
    with False show ?thesis
      by (subst str_nat.simps) (simp add: digits_value_def digit_val_digit_char)
  qed
qed

lemma parse_digits_chars:
  "parse_digits acc cs = Some n \<Longrightarrow> \<forall>c \<in> set cs. is_digit c \<or> c = 95"
  by (induction acc cs rule: parse_digits.induct) (auto split: if_splits)

lemma parse_unsigned_chars:
  assumes "parse_unsigned s = Some n"
  shows "s \<noteq> [] \<and> is_digit (hd s) \<and> (\<forall>c \<in> set s. is_digit c \<or> c = 95)"
proof (cases s)
  case Nil
  then show ?thesis using assms by (simp add: parse_unsigned_def)
next
  case (Cons c cs)
  then have d: "is_digit c" and p: "parse_digits (digit_val c) cs = Some n"
    using assms by (auto simp: parse_unsigned_def split: if_splits)
  show ?thesis using Cons d parse_digits_chars [OF p] by auto
qed

lemma dropWhile_hd: "s \<noteq> [] \<Longrightarrow> \<not> P (hd s) \<Longrightarrow> dropWhile P s = s"
  by (cases s) auto

lemma strip_sandwich:
  assumes "\<forall>c \<in> set a. is_space c" "\<forall>c \<in> set b. is_space c"
    and "core \<noteq> []" "\<not> is_space (hd core)" "\<not> is_space (last core)"
  shows "strip (a @ core @ b) = core"
proof -
  have "dropWhile is_space (a @ core @ b) = dropWhile is_space (core @ b)"
    using assms(1) by (simp add: dropWhile_append2)
  also have "\<dots> = core @ b"
    using assms(3,4) by (intro dropWhile_hd) simp_all
  finally have 1: "dropWhile is_space (a @ core @ b) = core @ b" .
  have "dropWhile is_space (rev b @ rev core) = dropWhile is_space (rev core)"
    using assms(2) dropWhile_append2 [of "rev b" is_space "rev core"] by simp
  also have "\<dots> = rev core"
    using assms(3,5) by (intro dropWhile_hd) (simp_all add: hd_rev)
  finally show ?thesis by (simp add: strip_def 1)
qed

lemma set_dropWhile_cover: "set xs \<subseteq> set (dropWhile P xs) \<union> {x. P x}"
proof -
  have "set xs = set (takeWhile P xs) \<union> set (dropWhile P xs)"
    by (metis set_append takeWhile_dropWhile_id)
  then show ?thesis by (auto dest: set_takeWhileD)
qed

lemma set_strip_cover: "set t \<subseteq> set (strip t) \<union> {c. is_space c}"
proof -
  have "set t \<subseteq> set (dropWhile is_space t) \<union> {c. is_space c}"
    by (rule set_dropWhile_cover)
  moreover have "set (rev (dropWhile is_space t))
      \<subseteq> set (dropWhile is_space (rev (dropWhile is_space t))) \<union> {c. is_space c}"
    by (rule set_dropWhile_cover)
  ultimately show ?thesis by (auto simp: strip_def)
qed

lemma set_strip_sub: "set (strip t) \<subseteq> set t"
  by (auto simp: strip_def dest!: set_dropWhileD)

lemma filter_dropWhile_disjoint:
  "(\<And>x. P x \<Longrightarrow> \<not> Q x) \<Longrightarrow> filter Q (dropWhile P xs) = filter Q xs"
  by (induction xs) auto

lemma filter_digit_strip: "filter is_digit (strip t) = filter is_digit t"
proof -
  have d: "\<And>xs. filter is_digit (dropWhile is_space xs) = filter is_digit xs"
    by (rule filter_dropWhile_disjoint) (auto dest: not_space_digit)
  show ?thesis by (simp add: strip_def rev_filter [symmetric] d)
qed

text \<open>What a successful \<open>int\<close> says about the text after the transformation.\<close>

lemma py_int_Inr:
  assumes "py_int s = Inr n"
  shows "(\<forall>c \<in> set (strip (to_ascii s)). is_digit c \<or> c = 43 \<or> c = 45 \<or> c = 95)
    \<and> (\<exists>c \<in> set (strip (to_ascii s)). is_digit c)
    \<and> length (filter is_digit (strip (to_ascii s))) \<le> max_str_digits"
proof -
  let ?t = "strip (to_ascii s)"
  have len: "length (filter is_digit ?t) \<le> max_str_digits"
    using assms by (auto simp: py_int_def Let_def split: if_splits)
  obtain c cs where t: "?t = c # cs"
    using assms len by (cases ?t) (auto simp: py_int_def Let_def)
  have "\<exists>u m. parse_unsigned u = Some m \<and> (u = cs \<and> (c = 45 \<or> c = 43) \<or> u = c # cs)"
    using assms len t by (auto simp: py_int_def Let_def split: if_splits option.splits)
  then obtain u m where u: "parse_unsigned u = Some m" "u = cs \<and> (c = 45 \<or> c = 43) \<or> u = c # cs"
    by blast
  from parse_unsigned_chars [OF u(1)] u(2) t
  have "(\<forall>c \<in> set ?t. is_digit c \<or> c = 43 \<or> c = 45 \<or> c = 95)" "\<exists>c \<in> set ?t. is_digit c"
    by (auto simp: neq_Nil_conv)
  with len show ?thesis by blast
qed

lemma py_int_error: "py_int s = Inl e \<Longrightarrow> e = ValueError"
  by (auto simp: py_int_def Let_def split: list.splits option.splits if_splits)

lemma int_char_ascii: "c < 127 \<Longrightarrow> int_char c = (is_space c \<or> is_digit c \<or> c = 43 \<or> c = 45 \<or> c = 95)"
  using unicode_space_ge [of c]
  by (auto simp: int_char_def int_space_def int_digit_def unicode_decimal_ascii)

lemma to_ascii_chars:
  "\<forall>c \<in> set (to_ascii s). is_space c \<or> is_digit c \<or> c = 43 \<or> c = 45 \<or> c = 95
   \<Longrightarrow> \<forall>c \<in> set s. int_char c"
proof (induction s)
  case Nil
  then show ?case by simp
next
  case (Cons c cs)
  show ?case
  proof (cases "c < 127")
    case True
    with Cons show ?thesis by (auto simp: int_char_ascii)
  next
    case False
    show ?thesis
    proof (cases "unicode_space c")
      case True
      with False Cons show ?thesis by (auto simp: int_char_def int_space_def)
    next
      case sp: False
      show ?thesis
      proof (cases "unicode_decimal c")
        case None
        with False sp Cons.prems show ?thesis by (simp add: is_space_def is_digit_def)
      next
        case (Some d)
        with False sp Cons show ?thesis by (auto simp: int_char_def int_digit_def)
      qed
    qed
  qed
qed

lemma to_ascii_digit:
  "d \<in> set (to_ascii s) \<Longrightarrow> is_digit d \<Longrightarrow> \<exists>c \<in> set s. int_digit c"
proof (induction s)
  case Nil
  then show ?case by simp
next
  case (Cons c cs)
  show ?case
  proof (cases "c < 127")
    case True
    with Cons show ?thesis by (auto simp: int_digit_def unicode_decimal_ascii)
  next
    case False
    show ?thesis
    proof (cases "unicode_space c")
      case True
      with False Cons show ?thesis by (auto simp: is_digit_def)
    next
      case sp: False
      show ?thesis
      proof (cases "unicode_decimal c")
        case None
        with False sp Cons.prems show ?thesis by (simp add: is_digit_def)
      next
        case (Some d)
        with False sp Cons show ?thesis by (auto simp: int_digit_def)
      qed
    qed
  qed
qed

lemma to_ascii_map: "\<forall>c \<in> set s. int_char c \<Longrightarrow> to_ascii s = map ascii_of s"
proof (induction s)
  case Nil
  then show ?case by simp
next
  case (Cons c cs)
  then have ih: "to_ascii cs = map ascii_of cs" by simp
  have "127 \<le> c \<Longrightarrow> \<not> unicode_space c \<Longrightarrow> unicode_decimal c \<noteq> None"
    using Cons.prems by (auto simp: int_char_def int_space_def int_digit_def is_space_def)
  then show ?case
    by (auto simp: ih ascii_of_def split: option.splits)
qed

lemma ascii_of_space: "int_space c \<Longrightarrow> is_space (ascii_of c)"
  using unicode_space_ge [of c]
  by (auto simp: int_space_def ascii_of_def is_space_def)

lemma ascii_of_digit:
  assumes "int_digit c"
  shows "is_digit (ascii_of c) \<and> digit_val (ascii_of c) = the (unicode_decimal c)"
proof (cases "c < 127")
  case True
  with assms show ?thesis
    by (auto simp: int_digit_def ascii_of_def unicode_decimal_ascii digit_val_def split: if_splits)
next
  case False
  obtain d where d: "unicode_decimal c = Some d" using assms by (auto simp: int_digit_def)
  then have "\<not> unicode_space c" using unicode_space_not_decimal [of c] by auto
  with False d unicode_decimal_lt10 [OF d] show ?thesis
    by (simp add: ascii_of_def is_digit_def digit_val_def)
qed

lemma ascii_of_is_digit: "int_char c \<Longrightarrow> is_digit (ascii_of c) = int_digit c"
proof (cases "int_digit c")
  case True
  then show ?thesis by (simp add: ascii_of_digit)
next
  case False
  assume "int_char c"
  with False have "int_space c \<or> c = 43 \<or> c = 45 \<or> c = 95" by (auto simp: int_char_def)
  then have "\<not> is_digit (ascii_of c)"
    using ascii_of_space [of c] not_space_digit [of "ascii_of c"]
    by (auto simp: ascii_of_def is_digit_def)
  with False show ?thesis by simp
qed

lemma digits_value_ascii_of:
  "\<forall>c \<in> set ds. int_digit c \<Longrightarrow>
     foldl (\<lambda>a c. 10 * a + digit_val c) acc (map ascii_of ds)
       = foldl (\<lambda>a c. 10 * a + the (unicode_decimal c)) acc ds"
  by (induction ds arbitrary: acc) (simp_all add: ascii_of_digit)

lemma int_digit_not_space: "int_digit c \<Longrightarrow> \<not> int_space c"
  using unicode_space_not_decimal [of c] unicode_decimal_ascii [of c]
  by (cases "c < 127") (auto simp: int_digit_def int_space_def is_space_def is_digit_def split: if_splits)

text \<open>White space, an optional sign, digits, white space.\<close>

lemma py_int_grammar:
  assumes w: "\<forall>c \<in> set w1. int_space c" "\<forall>c \<in> set w2. int_space c"
    and ds: "ds \<noteq> []" "\<forall>c \<in> set ds. int_digit c" "length ds \<le> max_str_digits"
    and sg: "sg = [] \<or> sg = [43] \<or> sg = [45]"
  shows "py_int (w1 @ sg @ ds @ w2)
     = Inr ((if sg = [45] then - 1 else 1) * int (decimal_value ds))"
proof -
  let ?a = "map ascii_of w1" and ?b = "map ascii_of w2" and ?d = "map ascii_of ds"
  have sga: "map ascii_of sg = sg" using sg by (auto simp: ascii_of_def)
  have "\<forall>c \<in> set (w1 @ sg @ ds @ w2). int_char c"
    using w ds(2) sg by (auto simp: int_char_def)
  then have ta: "to_ascii (w1 @ sg @ ds @ w2) = ?a @ (sg @ ?d) @ ?b"
    by (simp add: to_ascii_map sga)
  have dd: "\<forall>c \<in> set ?d. is_digit c" using ds(2) by (simp add: ascii_of_digit)
  have ne: "?d \<noteq> []" using ds(1) by simp
  have "is_digit (hd ?d)" using dd ne hd_in_set by blast
  then have "\<not> is_space (hd ?d)" by (rule not_space_digit)
  then have hd: "\<not> is_space (hd (sg @ ?d))"
    using sg by (auto simp: is_space_def)
  have "is_digit (last ?d)" using dd ne last_in_set by blast
  then have "\<not> is_space (last ?d)" by (rule not_space_digit)
  then have la: "\<not> is_space (last (sg @ ?d))"
    using ne by simp
  have st: "strip (to_ascii (w1 @ sg @ ds @ w2)) = sg @ ?d"
    unfolding ta using w ne hd la by (intro strip_sandwich) (simp_all add: ascii_of_space)
  have cnt: "length (filter is_digit (sg @ ?d)) = length ds"
    using sg dd by (auto simp: is_digit_def)
  have pu: "parse_unsigned ?d = Some (decimal_value ds)"
    using parse_unsigned_all_digits [OF ne dd] digits_value_ascii_of [OF ds(2), of 0]
    by (simp add: digits_value_def decimal_value_def)
  obtain c cs where cs: "?d = c # cs" using ne by (cases ?d) auto
  then have c: "is_digit c" using dd by simp
  then have c': "c \<noteq> 45" "c \<noteq> 43" by (auto simp: is_digit_def)
  have lim: "\<not> max_str_digits < length (filter is_digit (sg @ ?d))"
    using cnt ds(3) by simp
  have pu': "parse_unsigned (c # cs) = Some (decimal_value ds)"
    using pu cs by simp
  have unf: "py_int (w1 @ sg @ ds @ w2) =
      (case sg @ ?d of [] \<Rightarrow> Inl ValueError
       | c # cs \<Rightarrow>
           (case (if c = 45 then map_option (\<lambda>n. - int n) (parse_unsigned cs)
                  else if c = 43 then map_option int (parse_unsigned cs)
                  else map_option int (parse_unsigned (c # cs)))
            of None \<Rightarrow> Inl ValueError | Some n \<Rightarrow> Inr n))"
    unfolding py_int_def Let_def st using lim by (simp only: if_False)
  from sg consider "sg = []" | "sg = [43]" | "sg = [45]" by blast
  then show ?thesis
  proof cases
    case 1
    then show ?thesis unfolding unf cs using c' pu' by simp
  next
    case 2
    then show ?thesis unfolding unf cs using pu' by simp
  next
    case 3
    then show ?thesis unfolding unf cs using pu' by simp
  qed
qed

lemma py_int_foreign:
  assumes "\<exists>c \<in> set s. \<not> int_char c"
  shows "py_int s = Inl ValueError"
proof (cases "py_int s")
  case (Inl e)
  then show ?thesis using py_int_error by blast
next
  case (Inr n)
  from py_int_Inr [OF Inr]
  have "\<forall>c \<in> set (strip (to_ascii s)). is_digit c \<or> c = 43 \<or> c = 45 \<or> c = 95" by blast
  then have "\<forall>c \<in> set (to_ascii s). is_space c \<or> is_digit c \<or> c = 43 \<or> c = 45 \<or> c = 95"
    using set_strip_cover [of "to_ascii s"] by blast
  then have "\<forall>c \<in> set s. int_char c" by (rule to_ascii_chars)
  with assms show ?thesis by blast
qed

lemma py_int_no_digit:
  assumes "\<forall>c \<in> set s. \<not> int_digit c"
  shows "py_int s = Inl ValueError"
proof (cases "py_int s")
  case (Inl e)
  then show ?thesis using py_int_error by blast
next
  case (Inr n)
  from py_int_Inr [OF Inr] obtain d where "d \<in> set (strip (to_ascii s))" "is_digit d" by blast
  then have "d \<in> set (to_ascii s)" using set_strip_sub by blast
  from to_ascii_digit [OF this \<open>is_digit d\<close>] assms show ?thesis by blast
qed

lemma py_int_too_long:
  assumes "max_str_digits < length (filter int_digit s)"
  shows "py_int s = Inl ValueError"
proof (cases "py_int s")
  case (Inl e)
  then show ?thesis using py_int_error by blast
next
  case (Inr n)
  have ok: "\<forall>c \<in> set s. int_char c"
    using py_int_foreign [of s] Inr by auto
  then have "filter is_digit (to_ascii s) = map ascii_of (filter int_digit s)"
    by (simp add: to_ascii_map filter_map o_def ascii_of_is_digit cong: filter_cong)
  then have "length (filter is_digit (strip (to_ascii s))) = length (filter int_digit s)"
    by (simp add: filter_digit_strip)
  with py_int_Inr [OF Inr] assms show ?thesis by simp
qed

lemma decimal_value_str_nat: "decimal_value (str_nat n) = n"
proof -
  have "\<forall>c \<in> set (str_nat n). unicode_decimal c = Some (digit_val c)"
    using str_nat_digits [of n] by (auto simp: unicode_decimal_ascii is_digit_lt digit_val_def)
  then have "foldl (\<lambda>a c. 10 * a + the (unicode_decimal c)) 0 (str_nat n)
      = foldl (\<lambda>a c. 10 * a + digit_val c) 0 (str_nat n)"
    by (intro foldl_cong) simp_all
  then show ?thesis
    using digits_value_str_nat [of n] by (simp add: decimal_value_def digits_value_def)
qed

lemma py_int_py_str:
  assumes "\<bar>n\<bar> < 10 ^ max_str_digits"
  shows "py_int (py_str n) = Inr n"
proof -
  let ?m = "nat \<bar>n\<bar>"
  have "int ?m < int (10 ^ max_str_digits)" using assms by simp
  then have "?m < 10 ^ max_str_digits" by (simp only: of_nat_less_iff)
  moreover have "0 < max_str_digits" by (simp add: max_str_digits_def)
  ultimately have len: "length (str_nat ?m) \<le> max_str_digits"
    by (rule str_nat_length)
  have dg: "\<forall>c \<in> set (str_nat ?m). int_digit c"
    using str_nat_digits [of ?m] by (auto simp: int_digit_def unicode_decimal_ascii is_digit_lt)
  have "py_int ([] @ (if n < 0 then [45] else []) @ str_nat ?m @ [])
     = Inr ((if (if n < 0 then [45] else []) = [45 :: nat] then - 1 else 1)
            * int (decimal_value (str_nat ?m)))"
    by (rule py_int_grammar) (use len dg str_nat_nonempty in auto)
  then show ?thesis
    by (auto simp: py_str_def decimal_value_str_nat split: if_splits)
qed


lemmas int_eval =
  load_highscore_def py_int_def Let_def strip_def parse_unsigned_def is_digit_def is_space_def
  digit_val_def max_str_digits_def unicode_space_def unicode_decimal_def decimal_zeros_def
  codepoints_def

lemma load_highscore_examples:
  "load_highscore (Content (codepoints ''abc'')) = Inr 0"
  "load_highscore (Content (codepoints ''42'' @ [10])) = Inr 42"
  "load_highscore (Content (codepoints ''4_2'')) = Inr 42"
  "load_highscore (Content (codepoints ''4 2'')) = Inr 0"
  "load_highscore (Content (codepoints ''4__2'')) = Inr 0"
  "load_highscore (Content (codepoints ''_42'')) = Inr 0"
  "load_highscore (Content (codepoints ''42_'')) = Inr 0"
  "load_highscore (Content (codepoints ''+-4'')) = Inr 0"
  "load_highscore (Content (codepoints ''- 42'')) = Inr 0"
  "load_highscore (Content (codepoints ''4.2'')) = Inr 0"
  "load_highscore (Content [28, 52, 50]) = Inr 0"
  "load_highscore (Content [160, 1636, 1634]) = Inr 42"
  by (simp_all add: int_eval)

lemma small_below_limit: "\<bar>n\<bar> < 100 \<Longrightarrow> \<bar>n :: int\<bar> < 10 ^ max_str_digits"
proof -
  assume a: "\<bar>n\<bar> < 100"
  have "(10 :: int) ^ 2 \<le> 10 ^ max_str_digits"
    by (rule power_increasing) (simp_all add: max_str_digits_def)
  with a show ?thesis by simp
qed

section \<open>Collisions\<close>

lemma colliderect_positive:
  "positive_size a \<Longrightarrow> positive_size b \<Longrightarrow> colliderect a b = interiors_overlap a b"
  by (auto simp: positive_size_def colliderect_def interiors_overlap_def rect_left_def
      rect_right_def rect_top_def rect_bottom_def min_def max_def)

lemma check_collision_iff:
  "check_collision b base_h ps =
     ((\<exists>p \<in> set ps. colliderect b (fst p) \<or> colliderect b (snd p))
      \<or> rect_top b \<le> - 50 \<or> rect_bottom b \<ge> SCREEN_HEIGHT - base_h)"
  by (induction b base_h ps rule: check_collision.induct) auto

section \<open>Bounds on rounding\<close>

lemma pow2_powi: "pow2 e = 2 powi e"
  by (simp add: pow2_def power_int_def field_simps)

lemma pow2_pos: "0 < pow2 e"
  by (simp add: pow2_powi)

lemma pow2_add: "pow2 (a + b) = pow2 a * pow2 b"
  by (simp add: pow2_powi power_int_add)

lemma pow2_mono: "a \<le> b \<Longrightarrow> pow2 a \<le> pow2 b"
  by (simp add: pow2_powi power_int_increasing)

lemma round_half_even_le_ceiling: "round_half_even x \<le> \<lceil>x\<rceil>"
  unfolding round_half_even_def Let_def
  by (auto simp: ceiling_def) linarith+

lemma round_half_even_ge_floor: "\<lfloor>x\<rfloor> \<le> round_half_even x"
  unfolding round_half_even_def Let_def by auto

lemma fl_nonneg: "0 \<le> x \<Longrightarrow> 0 \<le> fl x"
proof -
  assume x: "0 \<le> x"
  show ?thesis
  proof (cases "x = 0")
    case True then show ?thesis by (simp add: fl_def)
  next
    case False
    let ?u = "pow2 (float_exponent x - 52)"
    have "0 \<le> x / ?u" using x pow2_pos [of "float_exponent x - 52"] by simp
    then have "0 \<le> \<lfloor>x / ?u\<rfloor>" by simp
    then have "0 \<le> round_half_even (x / ?u)"
      using round_half_even_ge_floor [of "x / ?u"] by linarith
    then show ?thesis using False pow2_pos [of "float_exponent x - 52"]
      by (simp add: fl_def Let_def)
  qed
qed

lemma fl_nonpos: "x \<le> 0 \<Longrightarrow> fl x \<le> 0"
proof -
  assume x: "x \<le> 0"
  show ?thesis
  proof (cases "x = 0")
    case True then show ?thesis by (simp add: fl_def)
  next
    case False
    let ?u = "pow2 (float_exponent x - 52)"
    have "x / ?u \<le> 0" using x pow2_pos [of "float_exponent x - 52"]
      by (simp add: divide_le_0_iff)
    then have "\<lceil>x / ?u\<rceil> \<le> 0" by (simp add: ceiling_le_iff)
    then have "round_half_even (x / ?u) \<le> 0"
      using round_half_even_le_ceiling [of "x / ?u"] by linarith
    then show ?thesis using False pow2_pos [of "float_exponent x - 52"]
      by (simp add: fl_def Let_def mult_le_0_iff)
  qed
qed

lemma float_exponent_small:
  assumes "0 < x" "x < 1"
  shows "float_exponent x \<le> - 1 \<and> x \<le> pow2 (float_exponent x + 1)"
proof -
  define m where "m = \<lfloor>1 / x\<rfloor>"
  define k where "k = bitlen m - 1"
  have "1 < 1 / x" using assms by simp
  then have m: "0 < m" unfolding m_def by linarith
  then have "1 \<le> bitlen m" by (simp add: bitlen_alt_def)
  then have k0: "0 \<le> k" by (simp add: k_def)
  have "2 ^ nat k \<le> m" using bitlen_bounds [OF m] by (simp add: k_def)
  then have "(2 :: rat) ^ nat k \<le> of_int m"
    by (metis of_int_le_iff of_int_numeral of_int_power)
  also have "\<dots> \<le> 1 / x" by (simp add: m_def)
  finally have "x * 2 ^ nat k \<le> 1" using assms by (simp add: field_simps)
  then have xle: "x \<le> pow2 (- k)" using k0
    by (cases "k = 0") (simp_all add: pow2_def field_simps)
  have fe: "float_exponent x = (if x = pow2 (- k) then - k else - k - 1)"
    using assms by (simp add: float_exponent_def Let_def m_def k_def)
  show ?thesis
  proof (cases "x = pow2 (- k)")
    case True
    with assms have "k \<noteq> 0" by (auto simp: pow2_def)
    with k0 have "1 \<le> k" by simp
    moreover have "pow2 (- k) \<le> pow2 (- k + 1)" by (rule pow2_mono) simp
    ultimately show ?thesis using True fe by simp
  next
    case False
    then show ?thesis using fe xle k0 by simp
  qed
qed

lemma fl_one: "fl 1 = 1"
  by code_simp

lemma fl_le_one: "x \<le> 1 \<Longrightarrow> fl x \<le> 1"
proof -
  assume x: "x \<le> 1"
  consider "x \<le> 0" | "0 < x" "x < 1" | "x = 1" using x by linarith
  then show ?thesis
  proof cases
    case 1
    then have "fl x \<le> 0" by (rule fl_nonpos)
    then show ?thesis by simp
  next
    case 2
    let ?e = "float_exponent x"
    let ?u = "pow2 (?e - 52)"
    from float_exponent_small [OF 2] have e: "?e \<le> - 1" and xe: "x \<le> pow2 (?e + 1)" by simp_all
    have up: "0 < ?u" by (rule pow2_pos)
    have "pow2 (?e + 1) = pow2 53 * ?u"
      using pow2_add [of 53 "?e - 52"] by (simp add: algebra_simps)
    with xe up have "x / ?u \<le> pow2 53" by (simp add: field_simps)
    also have "pow2 53 = of_int (2 ^ 53)" by (simp add: pow2_def)
    finally have "\<lceil>x / ?u\<rceil> \<le> 2 ^ 53" by (simp only: ceiling_le_iff)
    then have "round_half_even (x / ?u) \<le> 2 ^ 53"
      using round_half_even_le_ceiling [of "x / ?u"] by linarith
    then have "(of_int (round_half_even (x / ?u)) :: rat) \<le> of_int (2 ^ 53)"
      by (simp only: of_int_le_iff)
    then have "of_int (round_half_even (x / ?u)) * ?u \<le> of_int (2 ^ 53) * ?u"
      using up by (simp only: mult_le_cancel_right_pos)
    also have "of_int (2 ^ 53) * ?u = pow2 (?e + 1)"
      using pow2_add [of 53 "?e - 52"] by (simp add: algebra_simps pow2_def)
    also have "\<dots> \<le> pow2 0" using e by (intro pow2_mono) simp
    finally show ?thesis using 2 by (simp add: fl_def Let_def pow2_def)
  next
    case 3
    then show ?thesis by (simp add: fl_one)
  qed
qed

section \<open>The volumes stay in range\<close>

lemma volume_change_pos: "0 \<le> volume_change"
  unfolding volume_change_def by (rule fl_nonneg) simp

lemma fadd_up: "0 \<le> v \<Longrightarrow> 0 \<le> min 1 (fadd v volume_change) \<and> min 1 (fadd v volume_change) \<le> 1"
  using fl_nonneg [of "v + volume_change"] volume_change_pos by (simp add: fadd_def)

lemma fsub_down: "v \<le> 1 \<Longrightarrow> 0 \<le> max 0 (fsub v volume_change) \<and> max 0 (fsub v volume_change) \<le> 1"
  using fl_le_one [of "v - volume_change"] volume_change_pos by (simp add: fsub_def)

lemma adjust_volume_ok: "volumes_ok s \<Longrightarrow> volumes_ok (adjust_volume k s)"
  using fadd_up [of "music_volume s"] fsub_down [of "music_volume s"]
    fadd_up [of "sfx_volume s"] fsub_down [of "sfx_volume s"]
  by (simp add: volumes_ok_def adjust_volume_def)

lemma handle_event_volumes:
  "music_volume (event_route A e (event_quit e s)) = music_volume s"
  "sfx_volume (event_route A e (event_quit e s)) = sfx_volume s"
  by (simp_all add: event_route_def event_quit_def reset_game_def split: event.splits)

lemma handle_event_ok: "volumes_ok s \<Longrightarrow> volumes_ok (handle_event A e s)"
proof -
  assume "volumes_ok s"
  then have a: "volumes_ok (event_route A e (event_quit e s))"
    by (simp add: volumes_ok_def handle_event_volumes)
  show ?thesis
  proof (cases e)
    case (KEYDOWN k)
    have "volumes_ok (event_volume (KEYDOWN k) t)" if "volumes_ok t" for t
    proof -
      have "volumes_ok (t\<lparr>show_volume_ui := b\<rparr>)" for b
        using that by (simp add: volumes_ok_def)
      then show ?thesis using that adjust_volume_ok by (simp add: event_volume_def Let_def)
    qed
    with a KEYDOWN show ?thesis by (simp add: handle_event_def)
  qed (use a in \<open>simp_all add: handle_event_def event_volume_def\<close>)
qed

lemma handle_events_ok: "volumes_ok s \<Longrightarrow> volumes_ok (handle_events A es s)"
  by (induction es arbitrary: s) (simp_all add: handle_event_ok)

lemma tick_volumes:
  "music_volume (tick A s) = music_volume s" "sfx_volume (tick A s) = sfx_volume s"
  by (simp_all add: tick_def count_score_def detect_collision_def on_collision_def
      scroll_base_def advance_pipes_def move_bird_def split: prod.splits)

lemma tick_ok: "volumes_ok s \<Longrightarrow> volumes_ok (tick A s)"
  by (simp add: volumes_ok_def tick_volumes)

lemma run_ok: "volumes_ok s \<Longrightarrow> volumes_ok (run A fs s)"
  by (induction fs arbitrary: s) (simp_all add: frame_def tick_ok handle_events_ok)

lemma fl_04: "fl (2 / 5) = 3602879701896397 / 9007199254740992"
  by code_simp

lemma fl_05: "fl (1 / 2) = 1 / 2"
  by code_simp

lemma startup_ok: "startup A music_ok f = Inr b \<Longrightarrow> volumes_ok (initial b)"
  by (auto simp: startup_def Let_def volumes_ok_def fl_04 fl_05 split: sum.splits)

section \<open>The bird's flight\<close>

lemma drift_after_numeral:
  "drift_after (numeral k) v =
     py_int_of_float (fadd v GRAVITY) + drift_after (pred_numeral k) (fadd v GRAVITY)"
  by (simp add: numeral_eq_Suc)

lemma drift_values: "drift_after 4 0 = 0" "drift_after 5 0 = 1" "drift_after 25 0 = 66"
  by (simp_all add: drift_after_numeral gravity_value fl_eval)

lemma integrate_move:
  "integrate (b, v) = (move 0 (py_int_of_float (fadd v GRAVITY)) b, fadd v GRAVITY)"
  by (simp add: integrate_def Let_def set_centery_def rect_centery_def move_def)

lemma move_move: "move 0 a (move 0 b r) = move 0 (b + a) r"
  by (simp add: move_def)

lemma integrate_funpow:
  "(integrate ^^ n) (b, v) = (move 0 (drift_after n v) b, velocity_after n v)"
proof (induction n arbitrary: b v)
  case 0
  show ?case by (simp add: move_def)
next
  case (Suc n)
  show ?case
    by (simp only: funpow_Suc_right o_apply integrate_move Suc.IH move_move
        drift_after.simps velocity_after.simps)
qed

lemma rect_centery_move: "rect_centery (move dx dy r) = rect_centery r + dy"
  by (simp add: rect_centery_def move_def)

lemma rect_centerx_move: "rect_centerx (move dx dy r) = rect_centerx r + dx"
  by (simp add: rect_centerx_def move_def)

lemma reset_bird_center:
  "rect_centery (bird (reset_game A s)) = 256" "rect_centerx (bird (reset_game A s)) = 50"
  by (simp_all add: reset_game_def get_rect_center_def rect_centery_def rect_centerx_def
      cdiv2_def SCREEN_HEIGHT_def)

lemma integrate_centerx: "rect_centerx (fst (integrate (b, v))) = rect_centerx b"
  by (simp add: integrate_def Let_def set_centery_def rect_centerx_def)

section \<open>Scoring\<close>

lemma score_pipes_count:
  "score_pipes b ps sc = sc + int (length (filter (scores_now b) ps))"
  by (induction ps arbitrary: sc) (simp_all add: scores_now_def)

lemma centerx_move_pair_funpow:
  "rect_centerx (fst ((move_pair ^^ n) p)) = rect_centerx (fst p) - 3 * int n"
  by (induction n) (simp_all add: move_pair_def rect_centerx_move)

lemma create_pipe_centerx: "rect_centerx (fst (create_pipe A h)) = 338"
  by (simp add: create_pipe_def get_rect_midbottom_def rect_centerx_def cdiv2_def
      SCREEN_WIDTH_def Let_def)

lemma tick_pipes:
  "pipes (tick A s) = (if game_active s \<and> \<not> show_volume_ui s then move_pipes (pipes s) else pipes s)"
  by (simp add: tick_def count_score_def detect_collision_def on_collision_def scroll_base_def
      advance_pipes_def move_bird_def split: prod.splits)

lemma tick_score:
  "score (tick A s) =
     (if game_active s \<and> \<not> show_volume_ui s
      then score s + int (length (filter (scores_now (bird (tick A s))) (pipes (tick A s))))
      else score s)"
  by (simp add: tick_def count_score_def detect_collision_def on_collision_def scroll_base_def
      advance_pipes_def move_bird_def score_pipes_count split: prod.splits)

section \<open>The field over a run\<close>

lemma handle_event_pipes:
  "pipes (handle_event A e s) = pipes s \<or> pipes (handle_event A e s) = []
   \<or> (\<exists>h. pipes (handle_event A e s) = pipes s @ [create_pipe A h])"
proof (cases e)
  case (KEYDOWN k)
  then show ?thesis
    by (simp add: handle_event_def event_quit_def event_route_def event_volume_def
        adjust_volume_def reset_game_def Let_def)
qed (auto simp: handle_event_def event_quit_def event_route_def event_volume_def)

lemma handle_event_bird:
  "bird (handle_event A e s) = bird s
   \<or> bird (handle_event A e s) = get_rect_center (bird_img A) (50, SCREEN_HEIGHT div 2)"
proof (cases e)
  case (KEYDOWN k)
  then show ?thesis
    by (simp add: handle_event_def event_quit_def event_route_def event_volume_def
        adjust_volume_def reset_game_def Let_def)
qed (simp_all add: handle_event_def event_quit_def event_route_def event_volume_def)

lemma get_rect_center_centerx: "rect_centerx (get_rect_center sz (x, y)) = x"
  by (simp add: get_rect_center_def rect_centerx_def)

lemma create_pipe_on_grid:
  "rect_centerx (fst (create_pipe A h)) mod 3 = 2"
  "rect_centerx (fst (create_pipe A h)) \<le> rect_right (fst (create_pipe A h))"
  by (simp_all add: create_pipe_centerx)
     (simp add: create_pipe_def get_rect_midbottom_def rect_centerx_def rect_right_def cdiv2_def
       SCREEN_WIDTH_def Let_def)


lemma tick_bird_centerx: "rect_centerx (bird (tick A s)) = rect_centerx (bird s)"
  using integrate_centerx [of "bird s" "bird_movement s"]
  by (cases "integrate (bird s, bird_movement s)")
     (simp add: tick_def count_score_def detect_collision_def on_collision_def scroll_base_def
       advance_pipes_def move_bird_def)

lemma handle_event_on_grid: "on_grid s \<Longrightarrow> on_grid (handle_event A e s)"
  using handle_event_pipes [of A e s] handle_event_bird [of A e s]
  by (auto simp: on_grid_def create_pipe_on_grid get_rect_center_centerx)

lemma handle_events_on_grid: "on_grid s \<Longrightarrow> on_grid (handle_events A es s)"
  by (induction es arbitrary: s) (simp_all add: handle_event_on_grid)

lemma move_pair_on_grid:
  "rect_centerx (fst (move_pair p)) = rect_centerx (fst p) - 3"
  "rect_right (fst (move_pair p)) = rect_right (fst p) - 3"
  by (simp_all add: move_pair_def rect_centerx_move rect_right_move)

lemma tick_on_grid: "on_grid s \<Longrightarrow> on_grid (tick A s)"
  by (auto simp: on_grid_def tick_bird_centerx tick_pipes move_pipes_map_filter move_pair_on_grid
      mod_diff_eq)

lemma run_on_grid: "on_grid s \<Longrightarrow> on_grid (run A fs s)"
  by (induction fs arbitrary: s) (simp_all add: frame_def tick_on_grid handle_events_on_grid)

lemma startup_on_grid: "startup A music_ok f = Inr b \<Longrightarrow> on_grid (initial b)"
  by (auto simp: startup_def Let_def on_grid_def get_rect_center_centerx split: sum.splits)







lemma flip_iff:
  assumes "rect_centerx b = 50" "rect_centerx b' = 50" "rect_centerx (fst p) mod 3 = 2"
  shows "scores_now b' (move_pair p) = (\<not> passed b p \<and> passed b' (move_pair p))"
proof -
  have "rect_centerx (fst p) \<noteq> 51" "rect_centerx (fst p) \<noteq> 52"
    using assms(3) by auto
  then show ?thesis
    using assms(1,2) by (auto simp: scores_now_def passed_def move_pair_on_grid)
qed

lemma handle_event_score:
  "score (handle_event A e s) = score s
   \<or> (score (handle_event A e s) = 0 \<and> pipes (handle_event A e s) = [])"
proof (cases e)
  case (KEYDOWN k)
  then show ?thesis
    by (simp add: handle_event_def event_quit_def event_route_def event_volume_def
        adjust_volume_def reset_game_def Let_def)
qed (auto simp: handle_event_def event_quit_def event_route_def event_volume_def)

lemma passed_move_pair_funpow:
  "passed b ((move_pair ^^ i) p) \<Longrightarrow> i \<le> j \<Longrightarrow> passed b ((move_pair ^^ j) p)"
  by (simp add: passed_def centerx_move_pair_funpow)

lemma tick_score_flips:
  assumes "on_grid s"
  shows "score (tick A s) = score s +
     (if game_active s \<and> \<not> show_volume_ui s
      then int (length (filter (\<lambda>p. \<not> passed (bird s) p \<and> passed (bird (tick A s)) (move_pair p))
                         (pipes s)))
      else 0)"
proof (cases "game_active s \<and> \<not> show_volume_ui s")
  case False
  then have "tick A s = s" by (auto simp: tick_def)
  with False show ?thesis by auto
next
  case True
  let ?b = "bird s" and ?b' = "bird (tick A s)"
  have b: "rect_centerx ?b = 50" "rect_centerx ?b' = 50"
    using assms by (simp_all add: on_grid_def tick_bird_centerx)
  have "filter (scores_now ?b') (pipes (tick A s))
      = map move_pair (filter (\<lambda>p. - 50 < rect_right (fst p) \<and> scores_now ?b' (move_pair p)) (pipes s))"
    using True by (simp add: tick_pipes move_pipes_map_filter filter_map o_def conj_commute)
  moreover have "filter (\<lambda>p. - 50 < rect_right (fst p) \<and> scores_now ?b' (move_pair p)) (pipes s)
      = filter (\<lambda>p. \<not> passed ?b p \<and> passed ?b' (move_pair p)) (pipes s)"
  proof (rule filter_cong [OF refl])
    fix p assume p: "p \<in> set (pipes s)"
    then have g: "rect_centerx (fst p) mod 3 = 2" "rect_centerx (fst p) \<le> rect_right (fst p)"
      using assms by (auto simp: on_grid_def)
    have "scores_now ?b' (move_pair p) \<Longrightarrow> - 50 < rect_right (fst p)"
      using g(2) b(2) by (simp add: scores_now_def move_pair_on_grid)
    then show "(- 50 < rect_right (fst p) \<and> scores_now ?b' (move_pair p))
        = (\<not> passed ?b p \<and> passed ?b' (move_pair p))"
      using flip_iff [OF b g(1)] by blast
  qed
  ultimately have "length (filter (scores_now ?b') (pipes (tick A s)))
      = length (filter (\<lambda>p. \<not> passed ?b p \<and> passed ?b' (move_pair p)) (pipes s))"
    by (simp only: length_map)
  moreover have "score (tick A s)
      = score s + int (length (filter (scores_now ?b') (pipes (tick A s))))"
    using True tick_score [of A s] by simp
  ultimately show ?thesis using True by simp
qed

section \<open>Evaluating runs\<close>

lemmas game_eval =
  frame_def handle_event_def event_quit_def event_route_def event_volume_def adjust_volume_def
  tick_def move_bird_def advance_pipes_def scroll_base_def detect_collision_def on_collision_def
  count_score_def integrate_def set_centery_def rect_centery_def rect_centerx_def cdiv2_def
  create_pipe_def get_rect_midtop_def get_rect_midbottom_def move_def colliderect_def
  rect_top_def rect_bottom_def rect_right_def rect_left_def
  SCREEN_WIDTH_def SCREEN_HEIGHT_def PIPE_GAP_def FLAP_STRENGTH_def stock_assets_def

lemma replicate_numeral_Cons: "replicate (numeral k) x = x # replicate (pred_numeral k) x"
  by (simp add: numeral_eq_Suc)

lemma run_append: "run A (xs @ ys) s = run A ys (run A xs s)"
proof (induction xs arbitrary: s)
  case Nil
  show ?case by simp
next
  case (Cons evs xs)
  have "run A ys s = s" if "\<not> running s" for s
    using that by (cases ys) simp_all
  with Cons show ?case by simp
qed

lemma startup_stock:
  "startup stock_assets False Missing =
     Inr \<lparr>music_playing = False,
          printed = [''Info: Background music not loaded (optional) - game will continue without music''],
          initial = stock_game\<rparr>"
  by (simp add: startup_def start_music_def load_highscore_def stock_game_def stock_assets_def
      get_rect_center_def cdiv2_def SCREEN_HEIGHT_def Let_def)

lemma demo_95:
  "run stock_assets demo_frames stock_game =
     \<lparr>bird = \<lparr>rect_x = 33, rect_y = 233, rect_w = 34, rect_h = 24\<rparr>,
      bird_movement = 6077044747183061 / 1125899906842624,
      pipes = [(\<lparr>rect_x = 27, rect_y = - 160, rect_w = 52, rect_h = 320\<rparr>,
                \<lparr>rect_x = 27, rect_y = 260, rect_w = 52, rect_h = 320\<rparr>)],
      base_x = - 95, score = 0, game_active = True, high_score = 0,
      music_volume = 3602879701896397 / 9007199254740992, sfx_volume = 1 / 2,
      show_volume_ui = False, running = True, highscore_file = Missing\<rparr>"
  apply (rule trans)
   apply (simp add: demo_frames_def stock_game_def game_eval gravity_value fl_eval
      replicate_numeral_Cons)
  apply (rule refl)
  done

lemma demo_96:
  "run stock_assets (demo_frames @ [[]]) stock_game =
       \<lparr>bird = \<lparr>rect_x = 33, rect_y = 238, rect_w = 34, rect_h = 24\<rparr>,
        bird_movement = 6350075474592397 / 1125899906842624,
        pipes = [(\<lparr>rect_x = 24, rect_y = - 160, rect_w = 52, rect_h = 320\<rparr>,
                  \<lparr>rect_x = 24, rect_y = 260, rect_w = 52, rect_h = 320\<rparr>)],
        base_x = - 96, score = 1, game_active = False, high_score = 0,
        music_volume = 3602879701896397 / 9007199254740992, sfx_volume = 1 / 2,
        show_volume_ui = False, running = True, highscore_file = Missing\<rparr>"
  apply (subst run_append)
  apply (subst demo_95)
  apply (rule trans)
   apply (simp add: game_eval gravity_value fl_eval)
  apply (rule refl)
  done

section \<open>The claims\<close>

subsection \<open>C1: where \<open>create_pipe\<close> puts the gap\<close>

text \<open>
  Claim C1. \<open>create_pipe\<close> draws \<open>height\<close> and puts the top of the bottom pipe there and the
  bottom of the top pipe \<open>PIPE_GAP\<close> above it. So the gap is 100 high, its centre is
  \<open>height - 50\<close>, the top pipe ends at the centre minus half the gap and the bottom pipe
  starts at the centre plus half the gap. The pair whose gap is centred at 200 is the one
  drawn with \<open>height = 250\<close>: its top pipe ends at 150 and its bottom pipe starts at 250.
\<close>

theorem C1_create_pipe_gap:
  "gap_height (create_pipe A height) = PIPE_GAP
   \<and> gap_center_y (create_pipe A height) = height - PIPE_GAP div 2
   \<and> rect_bottom (fst (create_pipe A height))
       = gap_center_y (create_pipe A height) - gap_height (create_pipe A height) div 2
   \<and> rect_top (snd (create_pipe A height))
       = gap_center_y (create_pipe A height) + gap_height (create_pipe A height) div 2
   \<and> rect_bottom (fst (create_pipe A height)) = height - PIPE_GAP
   \<and> rect_top (snd (create_pipe A height)) = height
   \<and> gap_center_y (create_pipe A 250) = 200
   \<and> rect_bottom (fst (create_pipe A 250)) = 150
   \<and> rect_top (snd (create_pipe A 250)) = 250"
  by (simp add: create_pipe_def get_rect_midtop_def get_rect_midbottom_def rect_bottom_def
      rect_top_def gap_height_def gap_center_y_def PIPE_GAP_def Let_def)

theorem C1_witness:
  "rect_bottom (fst (create_pipe stock_assets 250)) = 150
   \<and> rect_top (snd (create_pipe stock_assets 250)) = 250"
  using C1_create_pipe_gap [of stock_assets 250] by simp

subsection \<open>C3: no pair left of the margin\<close>



subsection \<open>C5: what counts as a collision\<close>

text \<open>
  Claim C5 counts a shared edge as a collision. \<open>colliderect\<close> does not: here the bird's
  bottom edge lies on the top edge of the bottom pipe, at 263, and \<open>check_collision\<close>
  returns \<open>False\<close>, where the check of the specification returns \<open>True\<close>.
\<close>

theorem C5_counterexample:
  "closed_overlap \<lparr>rect_x = 33, rect_y = 239, rect_w = 34, rect_h = 24\<rparr>
       \<lparr>rect_x = 27, rect_y = 263, rect_w = 52, rect_h = 320\<rparr>
   \<and> spec_check \<lparr>rect_x = 33, rect_y = 239, rect_w = 34, rect_h = 24\<rparr> 112
       [(\<lparr>rect_x = 27, rect_y = - 157, rect_w = 52, rect_h = 320\<rparr>,
         \<lparr>rect_x = 27, rect_y = 263, rect_w = 52, rect_h = 320\<rparr>)]
   \<and> \<not> check_collision \<lparr>rect_x = 33, rect_y = 239, rect_w = 34, rect_h = 24\<rparr> 112
       [(\<lparr>rect_x = 27, rect_y = - 157, rect_w = 52, rect_h = 320\<rparr>,
         \<lparr>rect_x = 27, rect_y = 263, rect_w = 52, rect_h = 320\<rparr>)]"
  by (simp add: spec_check_def closed_overlap_def colliderect_def rect_left_def rect_right_def rect_top_def
      rect_bottom_def SCREEN_HEIGHT_def)

text \<open>
  Claim C5, amended. For a bird and pipes of positive width and height,
  \<open>check_collision\<close> returns \<open>True\<close> if and only if the interior of the bird's rectangle
  overlaps the interior of some pair's top or bottom rectangle (rectangles that only
  share an edge do not collide), or the bird's top edge is at most -50, or its bottom
  edge is at least \<open>SCREEN_HEIGHT\<close> minus the height of the ground.
\<close>

theorem C5_check_collision_amended:
  assumes "positive_size b"
    and "\<forall>p \<in> set ps. positive_size (fst p) \<and> positive_size (snd p)"
  shows "check_collision b base_h ps =
     ((\<exists>p \<in> set ps. interiors_overlap b (fst p) \<or> interiors_overlap b (snd p))
      \<or> rect_top b \<le> - 50 \<or> rect_bottom b \<ge> SCREEN_HEIGHT - base_h)"
  using assms by (simp add: check_collision_iff colliderect_positive)

theorem C5_witness:
  "positive_size \<lparr>rect_x = 33, rect_y = 244, rect_w = 34, rect_h = 24\<rparr>
   \<and> check_collision \<lparr>rect_x = 33, rect_y = 244, rect_w = 34, rect_h = 24\<rparr> 112
       [(\<lparr>rect_x = 27, rect_y = - 157, rect_w = 52, rect_h = 320\<rparr>,
         \<lparr>rect_x = 27, rect_y = 263, rect_w = 52, rect_h = 320\<rparr>)]"
  using C5_check_collision_amended [of "\<lparr>rect_x = 33, rect_y = 244, rect_w = 34, rect_h = 24\<rparr>"
      "[(\<lparr>rect_x = 27, rect_y = - 157, rect_w = 52, rect_h = 320\<rparr>,
         \<lparr>rect_x = 27, rect_y = 263, rect_w = 52, rect_h = 320\<rparr>)]" 112]
  by (simp add: positive_size_def interiors_overlap_def rect_left_def rect_right_def rect_top_def
      rect_bottom_def SCREEN_HEIGHT_def)

subsection \<open>C8: reading the high score\<close>

text \<open>
  Claim C8. \<open>load_highscore\<close> returns 0 when the file is missing, when its bytes do not
  decode, and for the text \<open>abc\<close>. For every text it returns a number and raises nothing.
  It returns 0 whenever the text holds a character that is neither white space, nor a
  decimal digit, nor a sign or an underscore; whenever it holds no digit at all; and
  whenever it holds more than 4300 digits. A valid integer file yields its integer: for
  white space, then an optional sign, then one to 4300 decimal digits (of any script), then
  white space, the result is the number the digits denote, negated after a minus sign; in
  particular the file that \<open>save_highscore\<close> wrote for a number of at most 4300 digits
  reads back as that number, and \<open>42\<close> followed by a newline reads as 42. A single
  underscore between digits is accepted; a blank or two underscores between digits, or
  two signs, give 0.
\<close>

theorem C8_load_highscore:
  "load_highscore Missing = Inr 0
   \<and> load_highscore Undecodable = Inr 0
   \<and> load_highscore (Content (codepoints ''abc'')) = Inr 0
   \<and> (\<exists>n. load_highscore (Content s) = Inr n)
   \<and> ((\<exists>c \<in> set s. \<not> int_char c) \<longrightarrow> load_highscore (Content s) = Inr 0)
   \<and> ((\<forall>c \<in> set s. \<not> int_digit c) \<longrightarrow> load_highscore (Content s) = Inr 0)
   \<and> (max_str_digits < length (filter int_digit s) \<longrightarrow> load_highscore (Content s) = Inr 0)
   \<and> ((\<forall>c \<in> set w1. int_space c) \<and> (\<forall>c \<in> set w2. int_space c)
        \<and> ds \<noteq> [] \<and> (\<forall>c \<in> set ds. int_digit c) \<and> length ds \<le> max_str_digits \<longrightarrow>
          load_highscore (Content (w1 @ ds @ w2)) = Inr (int (decimal_value ds))
        \<and> load_highscore (Content (w1 @ 43 # ds @ w2)) = Inr (int (decimal_value ds))
        \<and> load_highscore (Content (w1 @ 45 # ds @ w2)) = Inr (- int (decimal_value ds)))
   \<and> (\<bar>n\<bar> < 10 ^ max_str_digits \<longrightarrow> load_highscore (save_highscore n) = Inr n)
   \<and> load_highscore (Content (codepoints ''42'' @ [10])) = Inr 42
   \<and> load_highscore (Content (codepoints ''4_2'')) = Inr 42
   \<and> load_highscore (Content (codepoints ''4 2'')) = Inr 0
   \<and> load_highscore (Content (codepoints ''4__2'')) = Inr 0
   \<and> load_highscore (Content (codepoints ''+-4'')) = Inr 0"
proof (intro conjI impI)
  show "load_highscore Missing = Inr 0" by (simp add: load_highscore_def)
  show "load_highscore Undecodable = Inr 0" by (simp add: load_highscore_def)
  show "load_highscore (Content (codepoints ''abc'')) = Inr 0" by (rule load_highscore_examples)
  show "\<exists>n. load_highscore (Content s) = Inr n"
    using py_int_error [of s] by (cases "py_int s") (auto simp: load_highscore_def)
  show "load_highscore (Content s) = Inr 0" if "\<exists>c \<in> set s. \<not> int_char c"
    using py_int_foreign [OF that] by (simp add: load_highscore_def)
  show "load_highscore (Content s) = Inr 0" if "\<forall>c \<in> set s. \<not> int_digit c"
    using py_int_no_digit [OF that] by (simp add: load_highscore_def)
  show "load_highscore (Content s) = Inr 0" if "max_str_digits < length (filter int_digit s)"
    using py_int_too_long [OF that] by (simp add: load_highscore_def)
  show "load_highscore (save_highscore n) = Inr n" if "\<bar>n\<bar> < 10 ^ max_str_digits"
    using py_int_py_str [OF that] by (simp add: load_highscore_def save_highscore_def)
  show "load_highscore (Content (codepoints ''42'' @ [10])) = Inr 42"
    by (rule load_highscore_examples)
  show "load_highscore (Content (codepoints ''4_2'')) = Inr 42" by (rule load_highscore_examples)
  show "load_highscore (Content (codepoints ''4 2'')) = Inr 0" by (rule load_highscore_examples)
  show "load_highscore (Content (codepoints ''4__2'')) = Inr 0" by (rule load_highscore_examples)
  show "load_highscore (Content (codepoints ''+-4'')) = Inr 0" by (rule load_highscore_examples)
next
  assume a: "(\<forall>c \<in> set w1. int_space c) \<and> (\<forall>c \<in> set w2. int_space c)
        \<and> ds \<noteq> [] \<and> (\<forall>c \<in> set ds. int_digit c) \<and> length ds \<le> max_str_digits"
  have g: "py_int (w1 @ sg @ ds @ w2)
       = Inr ((if sg = [45] then - 1 else 1) * int (decimal_value ds))"
    if "sg = [] \<or> sg = [43] \<or> sg = [45]" for sg
    using a that by (intro py_int_grammar) simp_all
  show "load_highscore (Content (w1 @ ds @ w2)) = Inr (int (decimal_value ds))"
    using g [of "[]"] by (simp add: load_highscore_def)
  show "load_highscore (Content (w1 @ 43 # ds @ w2)) = Inr (int (decimal_value ds))"
    using g [of "[43]"] by (simp add: load_highscore_def)
  show "load_highscore (Content (w1 @ 45 # ds @ w2)) = Inr (- int (decimal_value ds))"
    using g [of "[45]"] by (simp add: load_highscore_def)
qed

theorem C8_witness:
  "load_highscore (Content [160, 1636, 1634, 10]) = Inr 42
   \<and> load_highscore (Content [160, 45, 1636, 1634, 10]) = Inr (- 42)
   \<and> load_highscore (Content (codepoints ''abc'')) = Inr 0
   \<and> load_highscore (save_highscore 42) = Inr 42"
proof -
  have sp: "\<forall>c \<in> set [160]. int_space c" "\<forall>c \<in> set [10]. int_space c"
    by (simp_all add: int_space_def is_space_def unicode_space_def)
  have dg: "\<forall>c \<in> set [1636, 1634]. int_digit c"
    by (simp add: int_digit_def unicode_decimal_def decimal_zeros_def)
  have v: "decimal_value [1636, 1634] = 42"
    by (simp add: decimal_value_def unicode_decimal_def decimal_zeros_def)
  have len: "length [1636, 1634 :: nat] \<le> max_str_digits" by (simp add: max_str_digits_def)
  have fo: "\<exists>c \<in> set (codepoints ''abc''). \<not> int_char c"
    by (simp add: codepoints_def int_char_def int_space_def is_space_def unicode_space_def
        int_digit_def unicode_decimal_def decimal_zeros_def)
  have lim: "\<bar>42 :: int\<bar> < 10 ^ max_str_digits" by (rule small_below_limit) simp
  show ?thesis
    using C8_load_highscore [where s = "codepoints ''abc''" and ?w1.0 = "[160]" and ?w2.0 = "[10]"
        and ds = "[1636, 1634]" and n = 42] sp dg len fo lim
    by (simp add: v)
qed

subsection \<open>C9: the volumes stay between 0 and 1\<close>

text \<open>
  Claim C9. From the state in which the main loop starts, after any number of frames
  and then any events of a further frame, both volumes are between 0 and 1; and in such
  a state each of the four keys sets its volume to the old one plus or minus the step
  0.05, in float arithmetic, clamped to the range from 0 to 1.
\<close>

theorem C9_volumes_clamped:
  "(startup A music_ok f = Inr b \<longrightarrow> volumes_ok (handle_events A evs (run A frames (initial b))))
   \<and> (volumes_ok s \<longrightarrow>
        music_volume (adjust_volume K_m s) = clamp (fadd (music_volume s) volume_change) 0 1
      \<and> music_volume (adjust_volume K_n s) = clamp (fsub (music_volume s) volume_change) 0 1
      \<and> sfx_volume (adjust_volume K_k s) = clamp (fadd (sfx_volume s) volume_change) 0 1
      \<and> sfx_volume (adjust_volume K_l s) = clamp (fsub (sfx_volume s) volume_change) 0 1)"
proof (intro conjI impI)
  assume "startup A music_ok f = Inr b"
  then show "volumes_ok (handle_events A evs (run A frames (initial b)))"
    by (intro handle_events_ok run_ok startup_ok)
next
  assume ok: "volumes_ok s"
  show "music_volume (adjust_volume K_m s) = clamp (fadd (music_volume s) volume_change) 0 1"
    using ok fadd_up [of "music_volume s"] by (simp add: adjust_volume_def clamp_def volumes_ok_def)
  show "music_volume (adjust_volume K_n s) = clamp (fsub (music_volume s) volume_change) 0 1"
    using ok fsub_down [of "music_volume s"] by (simp add: adjust_volume_def clamp_def volumes_ok_def)
  show "sfx_volume (adjust_volume K_k s) = clamp (fadd (sfx_volume s) volume_change) 0 1"
    using ok fadd_up [of "sfx_volume s"] by (simp add: adjust_volume_def clamp_def volumes_ok_def)
  show "sfx_volume (adjust_volume K_l s) = clamp (fsub (sfx_volume s) volume_change) 0 1"
    using ok fsub_down [of "sfx_volume s"] by (simp add: adjust_volume_def clamp_def volumes_ok_def)
qed

theorem C9_witness:
  "volumes_ok (handle_events stock_assets [KEYDOWN K_v, KEYDOWN K_m] (run stock_assets [[]] stock_game))
   \<and> volumes_ok stock_game
   \<and> music_volume (adjust_volume K_m stock_game)
       = clamp (fadd (music_volume stock_game) volume_change) 0 1"
proof -
  have ok: "volumes_ok stock_game"
    using startup_ok [OF startup_stock] by simp
  show ?thesis
    using C9_volumes_clamped [of stock_assets False Missing
        "\<lparr>music_playing = False,
          printed = [''Info: Background music not loaded (optional) - game will continue without music''],
          initial = stock_game\<rparr>" "[KEYDOWN K_v, KEYDOWN K_m]" "[[]]" stock_game]
      startup_stock ok
    by simp
qed

subsection \<open>C2: the music volume after a failed start of the music\<close>

text \<open>
  Claim C2 says that when the music fails to load the music volume is set to 0.0 and
  stays disabled. The program does recover and prints its line, and line 195 assigns
  0.0; but line 207 assigns 0.4 before the main loop starts, and the keys M and N go on
  changing the volume. Evaluated at a start with no \<open>bg.ogg\<close> and no \<open>highscore.txt\<close>:
  the loop starts with music volume 0.4, and V then M make it 0.45.
\<close>

theorem C2_music_volume_after_failed_load:
  "startup stock_assets False Missing =
     Inr \<lparr>music_playing = False,
          printed = [''Info: Background music not loaded (optional) - game will continue without music''],
          initial = stock_game\<rparr>
   \<and> music_volume stock_game = 3602879701896397 / 9007199254740992
   \<and> music_volume (handle_events stock_assets [KEYDOWN K_v, KEYDOWN K_m] stock_game)
       = 8106479329266893 / 18014398509481984
   \<and> music_volume stock_game \<noteq> 0"
proof (intro conjI)
  show "startup stock_assets False Missing =
     Inr \<lparr>music_playing = False,
          printed = [''Info: Background music not loaded (optional) - game will continue without music''],
          initial = stock_game\<rparr>"
    by (rule startup_stock)
  show mv: "music_volume stock_game = 3602879701896397 / 9007199254740992"
    by (simp add: stock_game_def fl_eval)
  show "music_volume (handle_events stock_assets [KEYDOWN K_v, KEYDOWN K_m] stock_game)
       = 8106479329266893 / 18014398509481984"
    by (simp add: stock_game_def game_eval volume_change_value fl_eval)
  show "music_volume stock_game \<noteq> 0"
    by (simp add: mv)
qed

subsection \<open>C4: the overlay\<close>

text \<open>
  Claim C4 says that pairs delivered by the spawn timer are still appended while the
  overlay is open. They are not: V opens the overlay in the first frame, the timer event
  of the second frame is dropped and the field stays empty, where the same event without
  the overlay adds a pair.
\<close>

theorem C4_counterexample:
  "show_volume_ui (run stock_assets [[KEYDOWN K_v]] stock_game)
   \<and> game_active (run stock_assets [[KEYDOWN K_v]] stock_game)
   \<and> pipes (run stock_assets [[KEYDOWN K_v], [SPAWNPIPE 200]] stock_game) = []
   \<and> pipes (run stock_assets [[SPAWNPIPE 200]] stock_game) \<noteq> []"
  by (simp add: stock_game_def game_eval gravity_value fl_eval)

text \<open>
  Claim C4, amended. While the overlay is open, the part of a frame after the event loop
  changes nothing (the bird does not move, the pipes do not advance), and no event is
  routed to the game: whatever the event, also a timer event, the bird, its velocity, the
  pipes, the ground, the score, the mode, the high score and its file stay as they are.
  A pair whose timer event arrives while the overlay is open is never added.
\<close>

theorem C4_overlay_suspends:
  assumes "show_volume_ui s"
  shows "tick A s = s
   \<and> event_route A e s = s
   \<and> bird (handle_event A e s) = bird s
   \<and> bird_movement (handle_event A e s) = bird_movement s
   \<and> pipes (handle_event A e s) = pipes s
   \<and> base_x (handle_event A e s) = base_x s
   \<and> score (handle_event A e s) = score s
   \<and> game_active (handle_event A e s) = game_active s
   \<and> high_score (handle_event A e s) = high_score s
   \<and> highscore_file (handle_event A e s) = highscore_file s"
  using assms
  by (cases e)
     (simp_all add: tick_def handle_event_def event_route_def event_quit_def event_volume_def
       adjust_volume_def Let_def)

theorem C4_witness:
  "show_volume_ui (stock_game\<lparr>show_volume_ui := True\<rparr>)
   \<and> tick stock_assets (stock_game\<lparr>show_volume_ui := True\<rparr>) = stock_game\<lparr>show_volume_ui := True\<rparr>
   \<and> pipes (handle_event stock_assets (SPAWNPIPE 200) (stock_game\<lparr>show_volume_ui := True\<rparr>)) = []"
  using C4_overlay_suspends [of "stock_game\<lparr>show_volume_ui := True\<rparr>" stock_assets "SPAWNPIPE 200"]
  by (simp add: stock_game_def)

subsection \<open>C6: a pair scores once\<close>

text \<open>
  Claim C6. The program keeps no \<open>passed\<close> flag; a pair has passed when its centre line
  has reached the bird's. Let \<open>s\<close> be any state of a run: the state in which the main loop
  starts, after any number of frames and then any events of a further frame. The bird's
  centre line is at 50 in \<open>s\<close>, after the tick and after any event. The tick of a playing
  frame turns the field into the pairs it keeps, each moved 3 to the left and in their
  order, and adds to the score exactly the number of pairs of the field that had not
  passed before the tick and have passed after it; any other tick changes neither. A pair
  that has passed has passed after the tick as well, and a pair the tick drops had
  passed. An event leaves the field as it is, empties it, or appends a new pair, which
  has not passed; and it leaves the score as it is or sets it to 0 together with the
  empty field. So along the life of a pair \<open>passed\<close> goes from false to true at most once,
  in a tick, and that tick adds exactly 1 to the score for it: \<open>passed\<close> is monotone
  along the moves of a pair.
\<close>

theorem C6_pair_scores_once:
  assumes "startup A music_ok f = Inr b0"
    and "s = handle_events A evs (run A frames (initial b0))"
  shows "rect_centerx (bird s) = 50
   \<and> rect_centerx (bird (tick A s)) = 50
   \<and> rect_centerx (bird (handle_event A e s)) = 50
   \<and> pipes (tick A s) =
       (if game_active s \<and> \<not> show_volume_ui s
        then map move_pair (filter (\<lambda>p. - 50 < rect_right (fst p)) (pipes s)) else pipes s)
   \<and> score (tick A s) = score s +
       (if game_active s \<and> \<not> show_volume_ui s
        then int (length (filter (\<lambda>p. \<not> passed (bird s) p \<and> passed (bird (tick A s)) (move_pair p))
                           (pipes s)))
        else 0)
   \<and> (\<forall>p \<in> set (pipes s). passed (bird s) p \<longrightarrow> passed (bird (tick A s)) (move_pair p))
   \<and> (\<forall>p \<in> set (pipes s). \<not> - 50 < rect_right (fst p) \<longrightarrow> passed (bird s) p)
   \<and> (pipes (handle_event A e s) = pipes s \<or> pipes (handle_event A e s) = []
       \<or> (\<exists>h. pipes (handle_event A e s) = pipes s @ [create_pipe A h]))
   \<and> (score (handle_event A e s) = score s
       \<or> (score (handle_event A e s) = 0 \<and> pipes (handle_event A e s) = []))
   \<and> \<not> passed (bird s) (create_pipe A h)
   \<and> (passed b ((move_pair ^^ i) p) \<and> i \<le> j \<longrightarrow> passed b ((move_pair ^^ j) p))"
proof -
  have g: "on_grid s"
    unfolding assms(2) using assms(1)
    by (intro handle_events_on_grid run_on_grid startup_on_grid)
  then have b: "rect_centerx (bird s) = 50" by (simp add: on_grid_def)
  have b': "rect_centerx (bird (tick A s)) = 50" using b by (simp add: tick_bird_centerx)
  have be: "rect_centerx (bird (handle_event A e s)) = 50"
    using handle_event_on_grid [OF g, of A e] by (simp add: on_grid_def)
  have mono: "\<forall>p \<in> set (pipes s). passed (bird s) p \<longrightarrow> passed (bird (tick A s)) (move_pair p)"
    using b b' by (simp add: passed_def move_pair_on_grid)
  have dropped: "\<forall>p \<in> set (pipes s). \<not> - 50 < rect_right (fst p) \<longrightarrow> passed (bird s) p"
    using g by (auto simp: on_grid_def passed_def)
  have new: "\<not> passed (bird s) (create_pipe A h)"
    using b by (simp add: passed_def create_pipe_centerx)
  show ?thesis
    using b b' be mono dropped new tick_score_flips [OF g, of A] handle_event_pipes [of A e s]
      handle_event_score [of A e s] passed_move_pair_funpow [of b i p j]
    by (simp add: tick_pipes move_pipes_map_filter)
qed

theorem C6_witness:
  "score (tick stock_assets (run stock_assets demo_frames stock_game))
     = score (run stock_assets demo_frames stock_game) + 1
   \<and> rect_centerx (bird (run stock_assets demo_frames stock_game)) = 50
   \<and> \<not> passed (bird (run stock_assets demo_frames stock_game)) (create_pipe stock_assets 260)"
  using C6_pair_scores_once [where A = stock_assets and music_ok = False and f = Missing
      and ?b0.0 = "\<lparr>music_playing = False,
          printed = [''Info: Background music not loaded (optional) - game will continue without music''],
          initial = stock_game\<rparr>"
      and evs = "[]" and frames = demo_frames
      and s = "run stock_assets demo_frames stock_game" and h = 260]
    startup_stock
  by (simp add: demo_95 passed_def move_pair_def move_def rect_centerx_def cdiv2_def)

subsection \<open>C7: gravity\<close>

text \<open>
  Claim C7. The bird starts with its centre at 256 and velocity 0. One pass through
  lines 270-271 leaves the bird where it is and makes the velocity \<open>GRAVITY\<close>, the float
  written 0.2425, whose truncation is 0. After 4 passes the bird has not moved, after 5 it
  is one pixel lower, and after 25 passes its centre is at 322.
\<close>

theorem C7_gravity_scenario:
  "rect_centery (bird (reset_game A s)) = 256
   \<and> bird_movement (reset_game A s) = 0
   \<and> integrate (bird (reset_game A s), 0) = (bird (reset_game A s), GRAVITY)
   \<and> GRAVITY = 4368491638549381 / 18014398509481984
   \<and> \<bar>GRAVITY - 2425 / 10000\<bar> < 1 / 10 ^ 17
   \<and> py_int_of_float GRAVITY = 0
   \<and> rect_centery (fst ((integrate ^^ 4) (bird (reset_game A s), 0))) = 256
   \<and> rect_centery (fst ((integrate ^^ 5) (bird (reset_game A s), 0))) = 257
   \<and> rect_centery (fst ((integrate ^^ 25) (bird (reset_game A s), 0))) = 322"
proof (intro conjI)
  show "rect_centery (bird (reset_game A s)) = 256" by (rule reset_bird_center)
  show "bird_movement (reset_game A s) = 0" by (simp add: reset_game_def)
  show "integrate (bird (reset_game A s), 0) = (bird (reset_game A s), GRAVITY)"
    by (simp add: integrate_move gravity_value fl_eval move_def)
  show "GRAVITY = 4368491638549381 / 18014398509481984" by (rule gravity_value)
  show "\<bar>GRAVITY - 2425 / 10000\<bar> < 1 / 10 ^ 17" by (simp add: gravity_value)
  show "py_int_of_float GRAVITY = 0" by (simp add: gravity_value py_int_of_float_def)
  show "rect_centery (fst ((integrate ^^ 4) (bird (reset_game A s), 0))) = 256"
    by (simp add: integrate_funpow rect_centery_move reset_bird_center drift_values)
  show "rect_centery (fst ((integrate ^^ 5) (bird (reset_game A s), 0))) = 257"
    by (simp add: integrate_funpow rect_centery_move reset_bird_center drift_values)
  show "rect_centery (fst ((integrate ^^ 25) (bird (reset_game A s), 0))) = 322"
    by (simp add: integrate_funpow rect_centery_move reset_bird_center drift_values)
qed

subsection \<open>C10: the score of the last tick\<close>

text \<open>
  Claim C10. When a collision is detected the high score is brought up to the score as
  it is before the scoring loop, and the loop then still counts. In the run
  \<open>demo_frames\<close> the game is still on after 95 frames with score 0; in frame 96 the bird
  hits the bottom pipe in the very tick in which the pair reaches the bird's centre
  line: the game is over, the score shown is 1, and the high score is 0 and was never
  written to the file.
\<close>

theorem C10_score_after_game_over:
  "high_score (count_score (on_collision s)) = max (high_score s) (score s)
   \<and> score (count_score (on_collision s)) = score_pipes (bird s) (pipes s) (score s)
   \<and> run stock_assets demo_frames stock_game =
       \<lparr>bird = \<lparr>rect_x = 33, rect_y = 233, rect_w = 34, rect_h = 24\<rparr>,
        bird_movement = 6077044747183061 / 1125899906842624,
        pipes = [(\<lparr>rect_x = 27, rect_y = - 160, rect_w = 52, rect_h = 320\<rparr>,
                  \<lparr>rect_x = 27, rect_y = 260, rect_w = 52, rect_h = 320\<rparr>)],
        base_x = - 95, score = 0, game_active = True, high_score = 0,
        music_volume = 3602879701896397 / 9007199254740992, sfx_volume = 1 / 2,
        show_volume_ui = False, running = True, highscore_file = Missing\<rparr>
   \<and> run stock_assets (demo_frames @ [[]]) stock_game =
       \<lparr>bird = \<lparr>rect_x = 33, rect_y = 238, rect_w = 34, rect_h = 24\<rparr>,
        bird_movement = 6350075474592397 / 1125899906842624,
        pipes = [(\<lparr>rect_x = 24, rect_y = - 160, rect_w = 52, rect_h = 320\<rparr>,
                  \<lparr>rect_x = 24, rect_y = 260, rect_w = 52, rect_h = 320\<rparr>)],
        base_x = - 96, score = 1, game_active = False, high_score = 0,
        music_volume = 3602879701896397 / 9007199254740992, sfx_volume = 1 / 2,
        show_volume_ui = False, running = True, highscore_file = Missing\<rparr>"
proof (intro conjI)
  show "high_score (count_score (on_collision s)) = max (high_score s) (score s)"
    by (simp add: count_score_def on_collision_def)
  show "score (count_score (on_collision s)) = score_pipes (bird s) (pipes s) (score s)"
    by (simp add: count_score_def on_collision_def)
  show "run stock_assets demo_frames stock_game =
       \<lparr>bird = \<lparr>rect_x = 33, rect_y = 233, rect_w = 34, rect_h = 24\<rparr>,
        bird_movement = 6077044747183061 / 1125899906842624,
        pipes = [(\<lparr>rect_x = 27, rect_y = - 160, rect_w = 52, rect_h = 320\<rparr>,
                  \<lparr>rect_x = 27, rect_y = 260, rect_w = 52, rect_h = 320\<rparr>)],
        base_x = - 95, score = 0, game_active = True, high_score = 0,
        music_volume = 3602879701896397 / 9007199254740992, sfx_volume = 1 / 2,
        show_volume_ui = False, running = True, highscore_file = Missing\<rparr>"
    by (rule demo_95)
  show "run stock_assets (demo_frames @ [[]]) stock_game =
       \<lparr>bird = \<lparr>rect_x = 33, rect_y = 238, rect_w = 34, rect_h = 24\<rparr>,
        bird_movement = 6350075474592397 / 1125899906842624,
        pipes = [(\<lparr>rect_x = 24, rect_y = - 160, rect_w = 52, rect_h = 320\<rparr>,
                  \<lparr>rect_x = 24, rect_y = 260, rect_w = 52, rect_h = 320\<rparr>)],
        base_x = - 96, score = 1, game_active = False, high_score = 0,
        music_volume = 3602879701896397 / 9007199254740992, sfx_volume = 1 / 2,
        show_volume_ui = False, running = True, highscore_file = Missing\<rparr>"
    by (rule demo_96)
qed

end
